theory Spec2Isabelle
  imports Complex_Main "HOL-Library.Word"
begin

section \<open>Values on the wire\<close>

text \<open>
  What \<open>orjson.loads\<close> returns and \<open>orjson.dumps\<close> accepts: \<open>None\<close> is \<open>JNull\<close>, a
  \<open>dict\<close> with string keys is an association list read with \<open>map_of\<close>. A JSON number
  with a fraction or an exponent is decoded to a float; every such float is a rational
  number, and the client never computes with one, so it is carried as a \<open>rat\<close>.
  A \<open>str\<close> is the list of the bytes of its UTF-8 encoding.
\<close>

datatype json =
    JNull
  | JBool bool
  | JInt int
  | JFloat rat
  | JStr string
  | JList "json list"
  | JObj "(string \<times> json) list"

text \<open>
  The errors an operation can raise. \<open>ValueError\<close> is what the specification calls a
  validation error; \<open>LifecycleError\<close> is the error of the running-state check.
\<close>

datatype reason =
    Message string
  | BatchSize nat json
  | FieldLength string nat nat

datatype error =
    LifecycleError
  | ValueError reason
  | KeyError string
  | TypeError
  | AttributeError
  | TransportError
  | RemoteError nat string
  | DecodeError

text \<open>\<open>x[key]\<close> with a string key: only a \<open>dict\<close> can be subscripted by a string.\<close>

fun py_getitem :: "json \<Rightarrow> string \<Rightarrow> error + json" where
  "py_getitem (JObj kv) key = (case map_of kv key of None \<Rightarrow> Inl (KeyError key) | Some v \<Rightarrow> Inr v)"
| "py_getitem _ key = Inl TypeError"

text \<open>\<open>x.get(key, default)\<close>: only a \<open>dict\<close> has the method.\<close>

fun py_get :: "json \<Rightarrow> string \<Rightarrow> json \<Rightarrow> error + json" where
  "py_get (JObj kv) key dflt = (case map_of kv key of None \<Rightarrow> Inr dflt | Some v \<Rightarrow> Inr v)"
| "py_get _ key dflt = Inl AttributeError"

text \<open>\<open>x == -1\<close>: numbers are compared by value, \<open>True\<close> is 1 and \<open>False\<close> is 0.\<close>

fun py_eq_minus_one :: "json \<Rightarrow> bool" where
  "py_eq_minus_one (JInt n) = (n = - 1)"
| "py_eq_minus_one (JFloat r) = (r = - 1)"
| "py_eq_minus_one _ = False"

text \<open>An optional argument as it is serialised: \<open>None\<close> becomes \<open>null\<close>.\<close>

definition opt_json :: "json option \<Rightarrow> json" where
  "opt_json x = (case x of None \<Rightarrow> JNull | Some v \<Rightarrow> v)"

definition opt_int :: "int option \<Rightarrow> json" where
  "opt_int x = (case x of None \<Rightarrow> JNull | Some n \<Rightarrow> JInt n)"

definition opt_str :: "string option \<Rightarrow> json" where
  "opt_str x = (case x of None \<Rightarrow> JNull | Some s \<Rightarrow> JStr s)"

definition opt_list :: "json list option \<Rightarrow> json" where
  "opt_list x = (case x of None \<Rightarrow> JNull | Some xs \<Rightarrow> JList xs)"

definition str_list :: "string list \<Rightarrow> json" where
  "str_list xs = JList (map JStr xs)"

definition opt_str_list :: "string list option \<Rightarrow> json" where
  "opt_str_list x = (case x of None \<Rightarrow> JNull | Some xs \<Rightarrow> str_list xs)"

section \<open>Percent-encoding and identifiers\<close>

definition hex_digit :: "bool \<Rightarrow> nat \<Rightarrow> char" where
  "hex_digit upper n =
     (if upper then ''0123456789ABCDEF'' else ''0123456789abcdef'') ! (n mod 16)"

text \<open>
  \<open>urllib.parse.quote(string, safe)\<close> of the Python standard library: the string is
  encoded as UTF-8, and every byte that is not a letter, a digit, one of \<open>_.-~\<close> or an
  ASCII character of \<open>safe\<close> is replaced by \<open>%\<close> and two upper-case hexadecimal digits.
\<close>

definition always_safe :: string where
  "always_safe = ''ABCDEFGHIJKLMNOPQRSTUVWXYZabcdefghijklmnopqrstuvwxyz0123456789_.-~''"

definition quoter :: "string \<Rightarrow> char \<Rightarrow> string" where
  "quoter safe c =
     (if c \<in> set (always_safe @ filter (\<lambda>a. (of_char a :: nat) < 128) safe) then [c]
      else [CHR ''%'', hex_digit True ((of_char c :: nat) div 16), hex_digit True (of_char c)])"

definition quote :: "string \<Rightarrow> string \<Rightarrow> string" where
  "quote string safe = concat (map (quoter safe) string)"

text \<open>
  The reserved characters of a URI (RFC 3986, gen-delims and sub-delims):
  \<open>: / ? # [ ] @ ! $ & ' ( ) * + , ; =\<close>.
\<close>

definition reserved :: string where
  "reserved = '':/?#[]@!$&()*+,;='' @ [CHR 0x27]"

text \<open>
  \<open>uuid.UUID\<close> holds a 128-bit integer; \<open>str\<close> prints its 32 lower-case hexadecimal
  digits in groups of 8, 4, 4, 4 and 12.
\<close>

datatype uuid = UUID (uuid_int: "128 word")

definition hex32 :: "nat \<Rightarrow> string" where
  "hex32 n = map (\<lambda>k. hex_digit False (n div 16 ^ k)) (rev [0..<32])"

definition str_uuid :: "uuid \<Rightarrow> string" where
  "str_uuid u =
     (let hex = hex32 (unat (uuid_int u))
      in take 8 hex @ ''-'' @ take 4 (drop 8 hex) @ ''-'' @ take 4 (drop 12 hex) @ ''-''
         @ take 4 (drop 16 hex) @ ''-'' @ drop 20 hex)"

text \<open>\<open>str(id)\<close> for an optional id: \<open>str(None)\<close> is the text \<open>None\<close>.\<close>

definition str_opt_uuid :: "uuid option \<Rightarrow> string" where
  "str_opt_uuid x = (case x of None \<Rightarrow> ''None'' | Some u \<Rightarrow> str_uuid u)"

section \<open>The client and its connections\<close>

record Settings =
  chroma_server_host :: string
  chroma_server_http_port :: int
  chroma_server_ssl_enabled :: bool
  chroma_server_api_default_path :: string

text \<open>
  The bytes of a serialised body. They are not computed here: a body is known by what
  an encoder says it encodes.
\<close>

datatype bytes = Encoded json

text \<open>A request as it is handed to \<open>httpx.AsyncClient.request\<close>.\<close>

record request =
  rmethod :: string
  url :: string
  params :: "(string \<times> json) list option"
  content :: "bytes option"

text \<open>
  The keyword arguments of \<open>_make_request\<close>. Callers pass \<open>json\<close> and \<open>params\<close> only.
\<close>

record kwargs =
  json_kw :: "json option"
  params_kw :: "(string \<times> json) list option"

definition no_kwargs :: kwargs where
  "no_kwargs = \<lparr>json_kw = None, params_kw = None\<rparr>"

text \<open>
  The state an operation reads and writes. \<open>running\<close> is the lifecycle flag of the
  component base class and \<open>max_batch_size\<close> the cache of the HTTP base class, which
  starts at \<open>-1\<close>; it is declared \<open>int\<close> but \<open>cast\<close> checks nothing, so it holds whatever
  the server sent. \<open>clients\<close> is the dictionary \<open>_clients\<close> with its newest entry first;
  it is an attribute of the class, shared by every instance of the process.
  A connection is known by the number it got when it was constructed; \<open>aclosed\<close> lists
  the connections closed so far. \<open>event_loop\<close> is the hash of the event loop the caller
  runs in, \<open>None\<close> where \<open>asyncio.get_event_loop\<close> raises \<open>RuntimeError\<close>.
  \<open>requests\<close> lists the requests issued so far, oldest first.
\<close>

record client =
  running :: bool
  max_batch_size :: json
  api_url :: string
  settings :: Settings
  event_loop :: "int option"
  clients :: "(int \<times> nat) list"
  next_client :: nat
  aclosed :: "nat list"
  requests :: "request list"

text \<open>
  What lies outside the client, a parameter of the model. \<open>dumps\<close> is \<open>orjson.dumps\<close>: the
  bytes of a value, or the error it raises on a value it cannot serialise (an integer
  outside 64 bits, for one). \<open>exchange\<close> is the exchange with the server: given the
  requests issued before and the request, the decoded body of a success response, or the
  error raised by the transport, by \<open>_raise_chroma_error\<close> on a non-success status, or by
  \<open>orjson.loads\<close> on a body that is not JSON.
\<close>

record wire =
  dumps :: "json \<Rightarrow> error + bytes"
  exchange :: "request list \<Rightarrow> request \<Rightarrow> error + json"

text \<open>
  The key of a connection: the hash of the event loop, and 0 where there is none.
\<close>

definition loop_hash :: "int option \<Rightarrow> int" where
  "loop_hash loop = (case loop of Some h \<Rightarrow> h | None \<Rightarrow> 0)"

definition get_client :: "int option \<Rightarrow> client \<Rightarrow> nat \<times> client" where
  "get_client loop s =
     (case map_of (clients s) (loop_hash loop) of
        Some c \<Rightarrow> (c, s)
      | None \<Rightarrow> (next_client s,
                 s\<lparr>clients := (loop_hash loop, next_client s) # clients s,
                   next_client := Suc (next_client s)\<rparr>))"

function cleanup :: "client \<Rightarrow> client" where
  "cleanup s =
     (case clients s of
        [] \<Rightarrow> s
      | (k, c) # rest \<Rightarrow> cleanup (s\<lparr>clients := rest, aclosed := aclosed s @ [c]\<rparr>))"
  by pat_completeness auto
termination
  by (relation "measure (\<lambda>s. length (clients s))") auto

declare cleanup.simps [simp del]

text \<open>
  The first statement of \<open>_make_request\<close>: a body given as \<open>json\<close> is serialised and
  becomes the \<open>content\<close>; where the encoder raises, nothing has been sent yet.
\<close>

definition encode_json :: "wire \<Rightarrow> kwargs \<Rightarrow> error + bytes option" where
  "encode_json w kw =
     (case json_kw kw of
        None \<Rightarrow> Inr None
      | Some j \<Rightarrow> (case dumps w j of Inl e \<Rightarrow> Inl e | Inr data \<Rightarrow> Inr (Some data)))"

definition make_request :: "wire \<Rightarrow> string \<Rightarrow> string \<Rightarrow> kwargs \<Rightarrow> client \<Rightarrow> (error + json) \<times> client" where
  "make_request w method path kw s =
     (case encode_json w kw of
        Inl e \<Rightarrow> (Inl e, s)
      | Inr body \<Rightarrow>
         (let escaped_path = quote path ''/'';
              r = \<lparr>rmethod = method, url = api_url s @ escaped_path,
                   params = params_kw kw, content = body\<rparr>;
              (c, s1) = get_client (event_loop s) s
          in (exchange w (requests s1) r, s1\<lparr>requests := requests s1 @ [r]\<rparr>)))"

text \<open>
  Modelled from the spec: \<open>_raise_for_running\<close> and \<open>stop\<close> of the component base class,
  which are not in the source file. The running-state check fails fast with a typed
  error when the client is not running, and stopping puts the client in the stopped state.
\<close>

definition raise_for_running :: "client \<Rightarrow> error + unit" where
  "raise_for_running s = (if running s then Inr () else Inl LifecycleError)"

definition component_stop :: "client \<Rightarrow> client" where
  "component_stop s = s\<lparr>running := False\<rparr>"

text \<open>
  \<open>stop\<close> stops the component and then calls the cleanup through \<open>async_to_sync\<close>, which
  is not in the source file. Modelled from the comment in \<open>close\<close>: the wrapped cleanup
  runs when no event loop is running, and does nothing when \<open>stop\<close> is called inside a
  running event loop.
\<close>

definition stop :: "bool \<Rightarrow> client \<Rightarrow> client" where
  "stop loop_running s =
     (let s1 = component_stop s in if loop_running then s1 else cleanup s1)"

text \<open>
  Modelled from the spec: \<open>System.stop\<close>, not in the source file, stops the components
  of the system; the client is one of them.
\<close>

definition system_stop :: "bool \<Rightarrow> client \<Rightarrow> client" where
  "system_stop loop_running s = stop loop_running s"

text \<open>\<open>close\<close> is a coroutine, so it runs inside a running event loop.\<close>

definition close :: "client \<Rightarrow> client" where
  "close s = system_stop True (stop True (cleanup s))"

section \<open>Python built-ins used by the operations\<close>

text \<open>
  \<open>int(x)\<close>: a float is truncated towards zero, and anything that is not a number or a
  text is a \<open>TypeError\<close>. How Python reads a text as an integer (white space, sign,
  underscores, the digits of every script, the limit on the number of digits) is taken as
  the parameter \<open>text_int\<close>.
\<close>

fun py_int :: "(string \<Rightarrow> error + int) \<Rightarrow> json \<Rightarrow> error + int" where
  "py_int text_int (JInt n) = Inr n"
| "py_int text_int (JBool b) = Inr (if b then 1 else 0)"
| "py_int text_int (JFloat r) = Inr (if 0 \<le> r then \<lfloor>r\<rfloor> else \<lceil>r\<rceil>)"
| "py_int text_int (JStr s) = text_int s"
| "py_int text_int _ = Inl TypeError"

text \<open>
  The characters of a text: in UTF-8 a character is one byte that is not a continuation
  byte, followed by its continuation bytes (\<open>0x80\<close> to \<open>0xBF\<close>).
\<close>

definition is_continuation :: "char \<Rightarrow> bool" where
  "is_continuation c = (128 \<le> (of_char c :: nat) \<and> (of_char c :: nat) < 192)"

definition utf8_chars :: "string \<Rightarrow> string list" where
  "utf8_chars s =
     snd (foldr (\<lambda>c (pending, done).
                   if is_continuation c then (c # pending, done)
                   else ([], (c # pending) # done))
            s ([], []))"

text \<open>
  \<open>for x in v\<close>: a list gives its items, a \<open>dict\<close> its keys, a text its characters.
\<close>

fun py_iter :: "json \<Rightarrow> error + json list" where
  "py_iter (JList xs) = Inr xs"
| "py_iter (JObj kv) = Inr (map (\<lambda>(k, v). JStr k) kv)"
| "py_iter (JStr s) = Inr (map JStr (utf8_chars s))"
| "py_iter _ = Inl TypeError"

fun map_result :: "('a \<Rightarrow> error + 'b) \<Rightarrow> 'a list \<Rightarrow> error + 'b list" where
  "map_result f [] = Inr []"
| "map_result f (x # xs) =
     (case f x of
        Inl e \<Rightarrow> Inl e
      | Inr y \<Rightarrow> (case map_result f xs of Inl e \<Rightarrow> Inl e | Inr ys \<Rightarrow> Inr (y # ys)))"

text \<open>
  Modelled from the spec: \<open>_clean_params\<close> of the HTTP base class, not in the source
  file. The optional query parameters \<open>limit\<close> and \<open>offset\<close> are sent only when given.
\<close>

definition clean_params :: "(string \<times> json) list \<Rightarrow> (string \<times> json) list" where
  "clean_params ps = filter (\<lambda>(k, v). v \<noteq> JNull) ps"

section \<open>Databases, tenants and collections\<close>

record Database =
  database_id :: json
  database_name :: json
  database_tenant :: json

record Tenant =
  tenant_name :: json

definition heartbeat :: "(string \<Rightarrow> error + int) \<Rightarrow> wire \<Rightarrow> client \<Rightarrow> (error + int) \<times> client" where
  "heartbeat text_int w s =
     (case raise_for_running s of
        Inl e \<Rightarrow> (Inl e, s)
      | Inr _ \<Rightarrow>
         (case make_request w ''get'' [] no_kwargs s of
            (Inl e, s1) \<Rightarrow> (Inl e, s1)
          | (Inr response, s1) \<Rightarrow>
              (case py_getitem response ''nanosecond heartbeat'' of
                 Inl e \<Rightarrow> (Inl e, s1)
               | Inr v \<Rightarrow> (py_int text_int v, s1))))"

definition create_database :: "wire \<Rightarrow> string \<Rightarrow> string \<Rightarrow> client \<Rightarrow> (error + unit) \<times> client" where
  "create_database w name tenant s =
     (case raise_for_running s of
        Inl e \<Rightarrow> (Inl e, s)
      | Inr _ \<Rightarrow>
         (case make_request w ''post'' ''/databases''
                 \<lparr>json_kw = Some (JObj [(''name'', JStr name)]),
                  params_kw = Some [(''tenant'', JStr tenant)]\<rparr> s of
            (Inl e, s1) \<Rightarrow> (Inl e, s1)
          | (Inr _, s1) \<Rightarrow> (Inr (), s1)))"

definition get_database :: "wire \<Rightarrow> string \<Rightarrow> string \<Rightarrow> client \<Rightarrow> (error + Database) \<times> client" where
  "get_database w name tenant s =
     (case raise_for_running s of
        Inl e \<Rightarrow> (Inl e, s)
      | Inr _ \<Rightarrow>
         (case make_request w ''get'' (''/databases/'' @ name)
                 \<lparr>json_kw = None, params_kw = Some [(''tenant'', JStr tenant)]\<rparr> s of
            (Inl e, s1) \<Rightarrow> (Inl e, s1)
          | (Inr response, s1) \<Rightarrow>
              (case py_getitem response ''id'' of
                 Inl e \<Rightarrow> (Inl e, s1)
               | Inr i \<Rightarrow>
                  (case py_getitem response ''name'' of
                     Inl e \<Rightarrow> (Inl e, s1)
                   | Inr n \<Rightarrow>
                      (case py_getitem response ''tenant'' of
                         Inl e \<Rightarrow> (Inl e, s1)
                       | Inr t \<Rightarrow>
                          (Inr \<lparr>database_id = i, database_name = n, database_tenant = t\<rparr>, s1))))))"

definition create_tenant :: "wire \<Rightarrow> string \<Rightarrow> client \<Rightarrow> (error + unit) \<times> client" where
  "create_tenant w name s =
     (case raise_for_running s of
        Inl e \<Rightarrow> (Inl e, s)
      | Inr _ \<Rightarrow>
         (case make_request w ''post'' ''/tenants''
                 \<lparr>json_kw = Some (JObj [(''name'', JStr name)]), params_kw = None\<rparr> s of
            (Inl e, s1) \<Rightarrow> (Inl e, s1)
          | (Inr _, s1) \<Rightarrow> (Inr (), s1)))"

definition get_tenant :: "wire \<Rightarrow> string \<Rightarrow> client \<Rightarrow> (error + Tenant) \<times> client" where
  "get_tenant w name s =
     (case raise_for_running s of
        Inl e \<Rightarrow> (Inl e, s)
      | Inr _ \<Rightarrow>
         (case make_request w ''get'' (''/tenants/'' @ name) no_kwargs s of
            (Inl e, s1) \<Rightarrow> (Inl e, s1)
          | (Inr resp_json, s1) \<Rightarrow>
              (case py_getitem resp_json ''name'' of
                 Inl e \<Rightarrow> (Inl e, s1)
               | Inr n \<Rightarrow> (Inr \<lparr>tenant_name = n\<rparr>, s1))))"

text \<open>
  \<open>CollectionModel.from_json\<close> is not in the source file; the operations that build a
  collection from the response take it as the parameter \<open>from_json\<close>.
\<close>

definition list_collections ::
  "(json \<Rightarrow> error + 'c) \<Rightarrow> wire \<Rightarrow> int option \<Rightarrow> int option \<Rightarrow> string \<Rightarrow> string \<Rightarrow> client
     \<Rightarrow> (error + 'c list) \<times> client" where
  "list_collections from_json w limit offset tenant database s =
     (case raise_for_running s of
        Inl e \<Rightarrow> (Inl e, s)
      | Inr _ \<Rightarrow>
         (case make_request w ''get'' ''/collections''
                 \<lparr>json_kw = None,
                  params_kw = Some (clean_params
                    [(''tenant'', JStr tenant), (''database'', JStr database),
                     (''limit'', opt_int limit), (''offset'', opt_int offset)])\<rparr> s of
            (Inl e, s1) \<Rightarrow> (Inl e, s1)
          | (Inr resp_json, s1) \<Rightarrow>
              (case py_iter resp_json of
                 Inl e \<Rightarrow> (Inl e, s1)
               | Inr items \<Rightarrow> (map_result from_json items, s1))))"

definition count_collections :: "wire \<Rightarrow> string \<Rightarrow> string \<Rightarrow> client \<Rightarrow> (error + json) \<times> client" where
  "count_collections w tenant database s =
     (case raise_for_running s of
        Inl e \<Rightarrow> (Inl e, s)
      | Inr _ \<Rightarrow>
         make_request w ''get'' ''/count_collections''
           \<lparr>json_kw = None,
            params_kw = Some [(''tenant'', JStr tenant), (''database'', JStr database)]\<rparr> s)"

text \<open>
  A configuration object is represented by what its \<open>to_json\<close> returns, a collection's
  metadata by the \<open>dict\<close> itself.
\<close>

definition create_collection ::
  "(json \<Rightarrow> error + 'c) \<Rightarrow> wire \<Rightarrow> string \<Rightarrow> json option \<Rightarrow> json option \<Rightarrow> bool \<Rightarrow> string \<Rightarrow> string
     \<Rightarrow> client \<Rightarrow> (error + 'c) \<times> client" where
  "create_collection from_json w name configuration metadata get_or_create tenant database s =
     (case raise_for_running s of
        Inl e \<Rightarrow> (Inl e, s)
      | Inr _ \<Rightarrow>
         (case make_request w ''post'' ''/collections''
                 \<lparr>json_kw = Some (JObj
                    [(''name'', JStr name), (''metadata'', opt_json metadata),
                     (''configuration'', opt_json configuration),
                     (''get_or_create'', JBool get_or_create)]),
                  params_kw = Some [(''tenant'', JStr tenant), (''database'', JStr database)]\<rparr> s of
            (Inl e, s1) \<Rightarrow> (Inl e, s1)
          | (Inr resp_json, s1) \<Rightarrow> (from_json resp_json, s1)))"

text \<open>
  \<open>name\<close> is declared \<open>str\<close> and tested against \<open>None\<close>, so it is optional here. The path
  is the conditional expression \<open>"/collections/" + name if name else str(id)\<close>, in which
  \<open>+\<close> binds tighter than \<open>if\<close>: the prefix belongs to the first branch only, and an
  empty name is as false as \<open>None\<close>.
\<close>

definition get_collection ::
  "(json \<Rightarrow> error + 'c) \<Rightarrow> wire \<Rightarrow> string option \<Rightarrow> uuid option \<Rightarrow> string \<Rightarrow> string
     \<Rightarrow> client \<Rightarrow> (error + 'c) \<times> client" where
  "get_collection from_json w name id' tenant database s =
     (case raise_for_running s of
        Inl e \<Rightarrow> (Inl e, s)
      | Inr _ \<Rightarrow>
         if (name = None \<and> id' = None) \<or> (name \<noteq> None \<and> id' \<noteq> None)
         then (Inl (ValueError (Message ''Name or id must be specified, but not both'')), s)
         else
           (let params0 = [(''tenant'', JStr tenant), (''database'', JStr database)];
                params1 = (if id' \<noteq> None then params0 @ [(''type'', JStr (str_opt_uuid id'))]
                           else params0);
                path = (case name of
                          Some n \<Rightarrow> if n \<noteq> [] then ''/collections/'' @ n else str_opt_uuid id'
                        | None \<Rightarrow> str_opt_uuid id')
            in case make_request w ''get'' path \<lparr>json_kw = None, params_kw = Some params1\<rparr> s of
                 (Inl e, s1) \<Rightarrow> (Inl e, s1)
               | (Inr resp_json, s1) \<Rightarrow> (from_json resp_json, s1)))"

definition get_or_create_collection ::
  "(json \<Rightarrow> error + 'c) \<Rightarrow> wire \<Rightarrow> string \<Rightarrow> json option \<Rightarrow> json option \<Rightarrow> string \<Rightarrow> string
     \<Rightarrow> client \<Rightarrow> (error + 'c) \<times> client" where
  "get_or_create_collection from_json w name configuration metadata tenant database s =
     (case raise_for_running s of
        Inl e \<Rightarrow> (Inl e, s)
      | Inr _ \<Rightarrow> create_collection from_json w name configuration metadata True tenant database s)"

definition modify :: "wire \<Rightarrow> uuid \<Rightarrow> string option \<Rightarrow> json option \<Rightarrow> client \<Rightarrow> (error + unit) \<times> client" where
  "modify w id' new_name new_metadata s =
     (case raise_for_running s of
        Inl e \<Rightarrow> (Inl e, s)
      | Inr _ \<Rightarrow>
         (case make_request w ''put'' (''/collections/'' @ str_uuid id')
                 \<lparr>json_kw = Some (JObj [(''new_metadata'', opt_json new_metadata),
                                        (''new_name'', opt_str new_name)]),
                  params_kw = None\<rparr> s of
            (Inl e, s1) \<Rightarrow> (Inl e, s1)
          | (Inr _, s1) \<Rightarrow> (Inr (), s1)))"

definition delete_collection :: "wire \<Rightarrow> string \<Rightarrow> string \<Rightarrow> string \<Rightarrow> client \<Rightarrow> (error + unit) \<times> client" where
  "delete_collection w name tenant database s =
     (case raise_for_running s of
        Inl e \<Rightarrow> (Inl e, s)
      | Inr _ \<Rightarrow>
         (case make_request w ''delete'' (''/collections/'' @ name)
                 \<lparr>json_kw = None,
                  params_kw = Some [(''tenant'', JStr tenant), (''database'', JStr database)]\<rparr> s of
            (Inl e, s1) \<Rightarrow> (Inl e, s1)
          | (Inr _, s1) \<Rightarrow> (Inr (), s1)))"

section \<open>Records of a collection\<close>

text \<open>
  The results of \<open>get\<close> and \<open>query\<close>. A field that is \<open>None\<close> holds \<open>JNull\<close>; the empty
  list is \<open>JList []\<close>.
\<close>

record GetResult =
  ids :: json
  embeddings :: json
  metadatas :: json
  documents :: json
  data :: json
  uris :: json
  included :: json

record QueryResult = GetResult +
  distances :: json

definition count :: "wire \<Rightarrow> uuid \<Rightarrow> client \<Rightarrow> (error + json) \<times> client" where
  "count w collection_id s =
     (case raise_for_running s of
        Inl e \<Rightarrow> (Inl e, s)
      | Inr _ \<Rightarrow>
         make_request w ''get'' (''/collections/'' @ str_uuid collection_id @ ''/count'')
           no_kwargs s)"

text \<open>
  The first statement of \<open>_get\<close>, which gives the offset and the limit that are sent.
  \<open>if page and page_size\<close> tests the truth of two optional integers: \<open>None\<close> and \<open>0\<close> are
  false.
\<close>

definition paginate ::
  "int option \<Rightarrow> int option \<Rightarrow> int option \<Rightarrow> int option \<Rightarrow> int option \<times> int option" where
  "paginate limit offset page page_size =
     (case (page, page_size) of
        (Some p, Some ps) \<Rightarrow>
          if p \<noteq> 0 \<and> ps \<noteq> 0 then (Some ((p - 1) * ps), Some ps) else (offset, limit)
      | _ \<Rightarrow> (offset, limit))"

definition get ::
  "wire \<Rightarrow> uuid \<Rightarrow> string list option \<Rightarrow> json option \<Rightarrow> string option \<Rightarrow> int option \<Rightarrow> int option
     \<Rightarrow> int option \<Rightarrow> int option \<Rightarrow> json option \<Rightarrow> string list \<Rightarrow> client
     \<Rightarrow> (error + GetResult) \<times> client" where
  "get w collection_id ids' where' sort' limit offset page page_size where_document include' s =
     (case raise_for_running s of
        Inl e \<Rightarrow> (Inl e, s)
      | Inr _ \<Rightarrow>
         (let (offset1, limit1) = paginate limit offset page page_size
          in case make_request w ''post'' (''/collections/'' @ str_uuid collection_id @ ''/get'')
                    \<lparr>json_kw = Some (JObj
                       [(''ids'', opt_str_list ids'), (''where'', opt_json where'),
                        (''sort'', opt_str sort'), (''limit'', opt_int limit1),
                        (''offset'', opt_int offset1),
                        (''where_document'', opt_json where_document),
                        (''include'', str_list include')]),
                     params_kw = None\<rparr> s of
               (Inl e, s1) \<Rightarrow> (Inl e, s1)
             | (Inr resp_json, s1) \<Rightarrow>
                 (case py_getitem resp_json ''ids'' of
                    Inl e \<Rightarrow> (Inl e, s1)
                  | Inr i \<Rightarrow>
                 (case py_get resp_json ''embeddings'' JNull of
                    Inl e \<Rightarrow> (Inl e, s1)
                  | Inr em \<Rightarrow>
                 (case py_get resp_json ''metadatas'' JNull of
                    Inl e \<Rightarrow> (Inl e, s1)
                  | Inr me \<Rightarrow>
                 (case py_get resp_json ''documents'' JNull of
                    Inl e \<Rightarrow> (Inl e, s1)
                  | Inr do \<Rightarrow>
                 (case py_get resp_json ''uris'' JNull of
                    Inl e \<Rightarrow> (Inl e, s1)
                  | Inr ur \<Rightarrow>
                 (case py_get resp_json ''included'' (str_list include') of
                    Inl e \<Rightarrow> (Inl e, s1)
                  | Inr inc \<Rightarrow>
                     (Inr \<lparr>ids = i, embeddings = em, metadatas = me, documents = do,
                           data = JNull, uris = ur, included = inc\<rparr>, s1)))))))))"

definition peek :: "wire \<Rightarrow> uuid \<Rightarrow> int \<Rightarrow> client \<Rightarrow> (error + GetResult) \<times> client" where
  "peek w collection_id n s =
     (case raise_for_running s of
        Inl e \<Rightarrow> (Inl e, s)
      | Inr _ \<Rightarrow>
         get w collection_id None (Some (JObj [])) None (Some n) None None None (Some (JObj []))
           [''embeddings'', ''documents'', ''metadatas''] s)"

definition delete ::
  "wire \<Rightarrow> uuid \<Rightarrow> string list option \<Rightarrow> json option \<Rightarrow> json option \<Rightarrow> client
     \<Rightarrow> (error + unit) \<times> client" where
  "delete w collection_id ids' where' where_document s =
     (case raise_for_running s of
        Inl e \<Rightarrow> (Inl e, s)
      | Inr _ \<Rightarrow>
         (case make_request w ''post'' (''/collections/'' @ str_uuid collection_id @ ''/delete'')
                 \<lparr>json_kw = Some (JObj
                    [(''where'', opt_json where'), (''ids'', opt_str_list ids'),
                     (''where_document'', opt_json where_document)]),
                  params_kw = None\<rparr> s of
            (Inl e, s1) \<Rightarrow> (Inl e, s1)
          | (Inr _, s1) \<Rightarrow> (Inr (), s1)))"

section \<open>Batches\<close>

type_synonym batch =
  "string list \<times> json list option \<times> json list option \<times> string list option \<times> string list option"

text \<open>
  Modelled from the spec: \<open>convert_np_embeddings_to_list\<close>, not in the source file. The
  embeddings are taken to be plain nested numeric sequences already.
\<close>

definition convert_np_embeddings_to_list :: "json list \<Rightarrow> json list" where
  "convert_np_embeddings_to_list embeddings' = embeddings'"

text \<open>\<open>n > bound\<close> for a length \<open>n\<close>: only a number can be compared with an integer.\<close>

fun py_len_gt :: "nat \<Rightarrow> json \<Rightarrow> error + bool" where
  "py_len_gt n (JInt m) = Inr (m < int n)"
| "py_len_gt n (JFloat r) = Inr (r < of_nat n)"
| "py_len_gt n (JBool b) = Inr ((if b then 1 else 0) < n)"
| "py_len_gt n _ = Inl TypeError"

text \<open>
  Modelled from the spec: \<open>validate_batch\<close>, not in the source file. The batch size, the
  number of ids, must not exceed the maximum, or the batch fails with a validation error
  naming the configured maximum and the attempted size; every optional sequence that is
  present must be as long as the ids, or the batch fails with a validation error naming
  the field, its length and the expected length.
\<close>

definition opt_length :: "'a list option \<Rightarrow> nat" where
  "opt_length xs = (case xs of None \<Rightarrow> 0 | Some ys \<Rightarrow> length ys)"

definition wrong_length :: "nat \<Rightarrow> 'a list option \<Rightarrow> bool" where
  "wrong_length n xs = (case xs of None \<Rightarrow> False | Some ys \<Rightarrow> length ys \<noteq> n)"

definition validate_batch :: "batch \<Rightarrow> json \<Rightarrow> error + unit" where
  "validate_batch b limit =
     (case b of (ids', embeddings', metadatas', documents', uris') \<Rightarrow>
        let n = length ids'
        in case py_len_gt n limit of
             Inl e \<Rightarrow> Inl e
           | Inr True \<Rightarrow> Inl (ValueError (BatchSize n limit))
           | Inr False \<Rightarrow>
               if wrong_length n embeddings'
               then Inl (ValueError (FieldLength ''embeddings'' (opt_length embeddings') n))
               else if wrong_length n metadatas'
               then Inl (ValueError (FieldLength ''metadatas'' (opt_length metadatas') n))
               else if wrong_length n documents'
               then Inl (ValueError (FieldLength ''documents'' (opt_length documents') n))
               else if wrong_length n uris'
               then Inl (ValueError (FieldLength ''uris'' (opt_length uris') n))
               else Inr ())"

definition get_max_batch_size :: "wire \<Rightarrow> client \<Rightarrow> (error + json) \<times> client" where
  "get_max_batch_size w s =
     (case raise_for_running s of
        Inl e \<Rightarrow> (Inl e, s)
      | Inr _ \<Rightarrow>
         if py_eq_minus_one (max_batch_size s)
         then (case make_request w ''get'' ''/pre-flight-checks'' no_kwargs s of
                 (Inl e, s1) \<Rightarrow> (Inl e, s1)
               | (Inr resp_json, s1) \<Rightarrow>
                   (case py_getitem resp_json ''max_batch_size'' of
                      Inl e \<Rightarrow> (Inl e, s1)
                    | Inr v \<Rightarrow> (Inr v, s1\<lparr>max_batch_size := v\<rparr>)))
         else (Inr (max_batch_size s), s))"

definition submit_batch :: "wire \<Rightarrow> batch \<Rightarrow> string \<Rightarrow> client \<Rightarrow> (error + json) \<times> client" where
  "submit_batch w b url' s =
     (case raise_for_running s of
        Inl e \<Rightarrow> (Inl e, s)
      | Inr _ \<Rightarrow>
         (case b of (ids', embeddings', metadatas', documents', uris') \<Rightarrow>
            make_request w ''post'' url'
              \<lparr>json_kw = Some (JObj
                 [(''ids'', str_list ids'), (''embeddings'', opt_list embeddings'),
                  (''metadatas'', opt_list metadatas'), (''documents'', opt_str_list documents'),
                  (''uris'', opt_str_list uris')]),
               params_kw = None\<rparr> s))"

definition add ::
  "wire \<Rightarrow> string list \<Rightarrow> uuid \<Rightarrow> json list \<Rightarrow> json list option \<Rightarrow> string list option
     \<Rightarrow> string list option \<Rightarrow> client \<Rightarrow> (error + bool) \<times> client" where
  "add w ids' collection_id embeddings' metadatas' documents' uris' s =
     (case raise_for_running s of
        Inl e \<Rightarrow> (Inl e, s)
      | Inr _ \<Rightarrow>
         (let b = (ids', Some (convert_np_embeddings_to_list embeddings'), metadatas', documents',
                   uris')
          in case get_max_batch_size w s of
               (Inl e, s1) \<Rightarrow> (Inl e, s1)
             | (Inr limit, s1) \<Rightarrow>
                 (case validate_batch b limit of
                    Inl e \<Rightarrow> (Inl e, s1)
                  | Inr _ \<Rightarrow>
                      (case submit_batch w b
                              (''/collections/'' @ str_uuid collection_id @ ''/add'') s1 of
                         (Inl e, s2) \<Rightarrow> (Inl e, s2)
                       | (Inr _, s2) \<Rightarrow> (Inr True, s2)))))"

definition update ::
  "wire \<Rightarrow> uuid \<Rightarrow> string list \<Rightarrow> json list option \<Rightarrow> json list option \<Rightarrow> string list option
     \<Rightarrow> string list option \<Rightarrow> client \<Rightarrow> (error + bool) \<times> client" where
  "update w collection_id ids' embeddings' metadatas' documents' uris' s =
     (case raise_for_running s of
        Inl e \<Rightarrow> (Inl e, s)
      | Inr _ \<Rightarrow>
         (let b = (ids', map_option convert_np_embeddings_to_list embeddings', metadatas',
                   documents', uris')
          in case get_max_batch_size w s of
               (Inl e, s1) \<Rightarrow> (Inl e, s1)
             | (Inr limit, s1) \<Rightarrow>
                 (case validate_batch b limit of
                    Inl e \<Rightarrow> (Inl e, s1)
                  | Inr _ \<Rightarrow>
                      (case submit_batch w b
                              (''/collections/'' @ str_uuid collection_id @ ''/update'') s1 of
                         (Inl e, s2) \<Rightarrow> (Inl e, s2)
                       | (Inr _, s2) \<Rightarrow> (Inr True, s2)))))"

definition upsert ::
  "wire \<Rightarrow> uuid \<Rightarrow> string list \<Rightarrow> json list \<Rightarrow> json list option \<Rightarrow> string list option
     \<Rightarrow> string list option \<Rightarrow> client \<Rightarrow> (error + bool) \<times> client" where
  "upsert w collection_id ids' embeddings' metadatas' documents' uris' s =
     (case raise_for_running s of
        Inl e \<Rightarrow> (Inl e, s)
      | Inr _ \<Rightarrow>
         (let b = (ids', Some (convert_np_embeddings_to_list embeddings'), metadatas', documents',
                   uris')
          in case get_max_batch_size w s of
               (Inl e, s1) \<Rightarrow> (Inl e, s1)
             | (Inr limit, s1) \<Rightarrow>
                 (case validate_batch b limit of
                    Inl e \<Rightarrow> (Inl e, s1)
                  | Inr _ \<Rightarrow>
                      (case submit_batch w b
                              (''/collections/'' @ str_uuid collection_id @ ''/upsert'') s1 of
                         (Inl e, s2) \<Rightarrow> (Inl e, s2)
                       | (Inr _, s2) \<Rightarrow> (Inr True, s2)))))"

definition query ::
  "wire \<Rightarrow> uuid \<Rightarrow> json list option \<Rightarrow> int \<Rightarrow> json option \<Rightarrow> json option \<Rightarrow> string list \<Rightarrow> client
     \<Rightarrow> (error + QueryResult) \<times> client" where
  "query w collection_id query_embeddings n_results where' where_document include' s =
     (case raise_for_running s of
        Inl e \<Rightarrow> (Inl e, s)
      | Inr _ \<Rightarrow>
         (case make_request w ''post'' (''/collections/'' @ str_uuid collection_id @ ''/query'')
                 \<lparr>json_kw = Some (JObj
                    [(''query_embeddings'',
                        opt_list (map_option convert_np_embeddings_to_list query_embeddings)),
                     (''n_results'', JInt n_results), (''where'', opt_json where'),
                     (''where_document'', opt_json where_document),
                     (''include'', str_list include')]),
                  params_kw = None\<rparr> s of
            (Inl e, s1) \<Rightarrow> (Inl e, s1)
          | (Inr resp_json, s1) \<Rightarrow>
              (case py_getitem resp_json ''ids'' of
                 Inl e \<Rightarrow> (Inl e, s1)
               | Inr i \<Rightarrow>
              (case py_get resp_json ''distances'' JNull of
                 Inl e \<Rightarrow> (Inl e, s1)
               | Inr di \<Rightarrow>
              (case py_get resp_json ''embeddings'' JNull of
                 Inl e \<Rightarrow> (Inl e, s1)
               | Inr em \<Rightarrow>
              (case py_get resp_json ''metadatas'' JNull of
                 Inl e \<Rightarrow> (Inl e, s1)
               | Inr me \<Rightarrow>
              (case py_get resp_json ''documents'' JNull of
                 Inl e \<Rightarrow> (Inl e, s1)
               | Inr do \<Rightarrow>
              (case py_get resp_json ''uris'' JNull of
                 Inl e \<Rightarrow> (Inl e, s1)
               | Inr ur \<Rightarrow>
              (case py_get resp_json ''included'' (str_list include') of
                 Inl e \<Rightarrow> (Inl e, s1)
               | Inr inc \<Rightarrow>
                  (Inr \<lparr>ids = i, embeddings = em, metadatas = me, documents = do,
                        data = JNull, uris = ur, included = inc, distances = di\<rparr>, s1))))))))))"

section \<open>Server state and settings\<close>

definition reset :: "wire \<Rightarrow> client \<Rightarrow> (error + json) \<times> client" where
  "reset w s =
     (case raise_for_running s of
        Inl e \<Rightarrow> (Inl e, s)
      | Inr _ \<Rightarrow> make_request w ''post'' ''/reset'' no_kwargs s)"

definition get_version :: "wire \<Rightarrow> client \<Rightarrow> (error + json) \<times> client" where
  "get_version w s =
     (case raise_for_running s of
        Inl e \<Rightarrow> (Inl e, s)
      | Inr _ \<Rightarrow> make_request w ''get'' ''/version'' no_kwargs s)"

definition get_settings :: "client \<Rightarrow> (error + Settings) \<times> client" where
  "get_settings s = (Inr (settings s), s)"

section \<open>Sequences of calls\<close>




text \<open>
  The steps that \<open>add\<close>, \<open>update\<close> and \<open>upsert\<close> share once the batch is built: fetch the
  maximum, validate, submit, return \<open>True\<close>.
\<close>

definition validate_and_submit :: "wire \<Rightarrow> batch \<Rightarrow> string \<Rightarrow> client \<Rightarrow> (error + bool) \<times> client" where
  "validate_and_submit w b url' s =
     (case get_max_batch_size w s of
        (Inl e, s1) \<Rightarrow> (Inl e, s1)
      | (Inr limit, s1) \<Rightarrow>
          (case validate_batch b limit of
             Inl e \<Rightarrow> (Inl e, s1)
           | Inr _ \<Rightarrow>
               (case submit_batch w b url' s1 of
                  (Inl e, s2) \<Rightarrow> (Inl e, s2)
                | (Inr _, s2) \<Rightarrow> (Inr True, s2))))"

text \<open>The request that fetches the maximum batch size.\<close>

definition pre_flight :: "client \<Rightarrow> request" where
  "pre_flight s =
     \<lparr>rmethod = ''get'', url = api_url s @ ''/pre-flight-checks'', params = None,
      content = None\<rparr>"

text \<open>
  Calls that read the maximum batch size, directly or as the first step of a bulk
  mutation, and a sequence of them run one after the other, a call that raised
  included: the results in order, and the client after the last call. The result of a
  bulk mutation is carried as a JSON boolean.
\<close>

datatype call =
    GetMaxBatchSize
  | Add "string list" uuid "json list" "json list option" "string list option" "string list option"
  | Update uuid "string list" "json list option" "json list option" "string list option"
      "string list option"
  | Upsert uuid "string list" "json list" "json list option" "string list option"
      "string list option"

fun run_call :: "wire \<Rightarrow> call \<Rightarrow> client \<Rightarrow> (error + json) \<times> client" where
  "run_call w GetMaxBatchSize s = get_max_batch_size w s"
| "run_call w (Add i c e m d u) s = (case add w i c e m d u s of (r, s1) \<Rightarrow> (map_sum id JBool r, s1))"
| "run_call w (Update c i e m d u) s =
     (case update w c i e m d u s of (r, s1) \<Rightarrow> (map_sum id JBool r, s1))"
| "run_call w (Upsert c i e m d u) s =
     (case upsert w c i e m d u s of (r, s1) \<Rightarrow> (map_sum id JBool r, s1))"

fun run_calls :: "wire \<Rightarrow> call list \<Rightarrow> client \<Rightarrow> (error + json) list \<times> client" where
  "run_calls w [] s = ([], s)"
| "run_calls w (c # cs) s =
     (case run_call w c s of
        (r, s1) \<Rightarrow> (case run_calls w cs s1 of (rs, s2) \<Rightarrow> (r # rs, s2)))"

section \<open>A started client\<close>

text \<open>
  A client as it is after construction and \<open>start\<close>: running, nothing fetched, no
  connection made and no request issued yet.
\<close>

definition settings0 :: Settings where
  "settings0 =
     \<lparr>chroma_server_host = ''localhost'', chroma_server_http_port = 8000,
      chroma_server_ssl_enabled = False, chroma_server_api_default_path = ''/api/v1''\<rparr>"

definition client0 :: client where
  "client0 =
     \<lparr>running = True, max_batch_size = JInt (- 1), api_url = ''http://localhost:8000/api/v1'',
      settings = settings0, event_loop = Some 7, clients = [], next_client = 0,
      aclosed = [], requests = []\<rparr>"

text \<open>
  An encoder for the examples, with the one limit of \<open>orjson.dumps\<close> that they meet: an
  integer below \<open>-2^63\<close> or above \<open>2^64 - 1\<close> raises \<open>JSONEncodeError\<close>, which is a
  \<open>TypeError\<close>.
\<close>

primrec fits_64_bits :: "json \<Rightarrow> bool" where
  "fits_64_bits JNull = True"
| "fits_64_bits (JBool b) = True"
| "fits_64_bits (JInt n) = (- (2 ^ 63) \<le> n \<and> n < 2 ^ 64)"
| "fits_64_bits (JFloat r) = True"
| "fits_64_bits (JStr t) = True"
| "fits_64_bits (JList xs) = list_all id (map fits_64_bits xs)"
| "fits_64_bits (JObj kv) = list_all snd (map (map_prod id fits_64_bits) kv)"

definition dumps_64_bits :: "json \<Rightarrow> error + bytes" where
  "dumps_64_bits j = (if fits_64_bits j then Inr (Encoded j) else Inl TypeError)"

text \<open>A server that answers every request with the same decoded body.\<close>

definition answering :: "json \<Rightarrow> wire" where
  "answering body = \<lparr>dumps = dumps_64_bits, exchange = (\<lambda>history r. Inr body)\<rparr>"

text \<open>A server that cannot be reached.\<close>

definition unreachable :: wire where
  "unreachable = \<lparr>dumps = dumps_64_bits, exchange = (\<lambda>history r. Inl TransportError)\<rparr>"

section \<open>Shutdown and the running-state check\<close>

lemma cleanup_fields:
  "running (cleanup s) = running s \<and> settings (cleanup s) = settings s
   \<and> requests (cleanup s) = requests s \<and> max_batch_size (cleanup s) = max_batch_size s
   \<and> api_url (cleanup s) = api_url s \<and> event_loop (cleanup s) = event_loop s
   \<and> next_client (cleanup s) = next_client s \<and> clients (cleanup s) = []"
proof (induction s rule: cleanup.induct)
  case (1 s)
  show ?case
  proof (cases "clients s")
    case Nil
    then show ?thesis by (simp add: cleanup.simps [of s])
  next
    case (Cons p rest)
    obtain k c where p: "p = (k, c)" by (cases p)
    from 1 [OF Cons [unfolded p]] show ?thesis
      by (simp add: cleanup.simps [of s] Cons p)
  qed
qed

lemma close_fields:
  "\<not> running (close s) \<and> settings (close s) = settings s \<and> requests (close s) = requests s"
  by (simp add: close_def system_stop_def stop_def component_stop_def cleanup_fields)

lemma not_running_raises: "\<not> running s \<Longrightarrow> raise_for_running s = Inl LifecycleError"
  by (simp add: raise_for_running_def)

lemma running_passes: "running s \<Longrightarrow> raise_for_running s = Inr ()"
  by (simp add: raise_for_running_def)

lemma stopped_heartbeat:
  "\<not> running s \<Longrightarrow> heartbeat text_int w s = (Inl LifecycleError, s)"
  by (simp add: heartbeat_def not_running_raises)

lemma stopped_create_database:
  "\<not> running s \<Longrightarrow> create_database w name tenant s = (Inl LifecycleError, s)"
  by (simp add: create_database_def not_running_raises)

lemma stopped_get_database:
  "\<not> running s \<Longrightarrow> get_database w name tenant s = (Inl LifecycleError, s)"
  by (simp add: get_database_def not_running_raises)

lemma stopped_create_tenant:
  "\<not> running s \<Longrightarrow> create_tenant w name s = (Inl LifecycleError, s)"
  by (simp add: create_tenant_def not_running_raises)

lemma stopped_get_tenant:
  "\<not> running s \<Longrightarrow> get_tenant w name s = (Inl LifecycleError, s)"
  by (simp add: get_tenant_def not_running_raises)

lemma stopped_list_collections:
  "\<not> running s \<Longrightarrow>
   list_collections from_json w limit offset tenant database s = (Inl LifecycleError, s)"
  by (simp add: list_collections_def not_running_raises)

lemma stopped_count_collections:
  "\<not> running s \<Longrightarrow> count_collections w tenant database s = (Inl LifecycleError, s)"
  by (simp add: count_collections_def not_running_raises)

lemma stopped_create_collection:
  "\<not> running s \<Longrightarrow>
   create_collection from_json w name configuration metadata get_or_create tenant database s
     = (Inl LifecycleError, s)"
  by (simp add: create_collection_def not_running_raises)

lemma stopped_get_collection:
  "\<not> running s \<Longrightarrow>
   get_collection from_json w name_opt id_opt tenant database s = (Inl LifecycleError, s)"
  by (simp add: get_collection_def not_running_raises)

lemma stopped_get_or_create_collection:
  "\<not> running s \<Longrightarrow>
   get_or_create_collection from_json w name configuration metadata tenant database s
     = (Inl LifecycleError, s)"
  by (simp add: get_or_create_collection_def not_running_raises)

lemma stopped_modify:
  "\<not> running s \<Longrightarrow> modify w collection_id new_name new_metadata s = (Inl LifecycleError, s)"
  by (simp add: modify_def not_running_raises)

lemma stopped_delete_collection:
  "\<not> running s \<Longrightarrow> delete_collection w name tenant database s = (Inl LifecycleError, s)"
  by (simp add: delete_collection_def not_running_raises)

lemma stopped_count: "\<not> running s \<Longrightarrow> count w collection_id s = (Inl LifecycleError, s)"
  by (simp add: count_def not_running_raises)

lemma stopped_peek: "\<not> running s \<Longrightarrow> peek w collection_id n s = (Inl LifecycleError, s)"
  by (simp add: peek_def not_running_raises)

lemma stopped_get:
  "\<not> running s \<Longrightarrow>
   get w collection_id ids_opt where_opt sort_opt limit offset page page_size where_document
     include_list s = (Inl LifecycleError, s)"
  by (simp add: get_def not_running_raises)

lemma stopped_delete:
  "\<not> running s \<Longrightarrow>
   delete w collection_id ids_opt where_opt where_document s = (Inl LifecycleError, s)"
  by (simp add: delete_def not_running_raises)

lemma stopped_submit_batch:
  "\<not> running s \<Longrightarrow> submit_batch w b path s = (Inl LifecycleError, s)"
  by (simp add: submit_batch_def not_running_raises)

lemma stopped_add:
  "\<not> running s \<Longrightarrow>
   add w id_list collection_id embedding_list metadata_list document_list uri_list s
     = (Inl LifecycleError, s)"
  by (simp add: add_def not_running_raises)

lemma stopped_update:
  "\<not> running s \<Longrightarrow>
   update w collection_id id_list embedding_opt metadata_list document_list uri_list s
     = (Inl LifecycleError, s)"
  by (simp add: update_def not_running_raises)

lemma stopped_upsert:
  "\<not> running s \<Longrightarrow>
   upsert w collection_id id_list embedding_list metadata_list document_list uri_list s
     = (Inl LifecycleError, s)"
  by (simp add: upsert_def not_running_raises)

lemma stopped_query:
  "\<not> running s \<Longrightarrow>
   query w collection_id query_embeddings n_results where_opt where_document include_list s
     = (Inl LifecycleError, s)"
  by (simp add: query_def not_running_raises)

lemma stopped_reset: "\<not> running s \<Longrightarrow> reset w s = (Inl LifecycleError, s)"
  by (simp add: reset_def not_running_raises)

lemma stopped_get_version: "\<not> running s \<Longrightarrow> get_version w s = (Inl LifecycleError, s)"
  by (simp add: get_version_def not_running_raises)

lemma stopped_get_max_batch_size:
  "\<not> running s \<Longrightarrow> get_max_batch_size w s = (Inl LifecycleError, s)"
  by (simp add: get_max_batch_size_def not_running_raises)

lemmas stopped_operation =
  stopped_heartbeat stopped_create_database stopped_get_database stopped_create_tenant
  stopped_get_tenant stopped_list_collections stopped_count_collections
  stopped_create_collection stopped_get_collection stopped_get_or_create_collection
  stopped_modify stopped_delete_collection stopped_count stopped_peek stopped_get
  stopped_delete stopped_submit_batch stopped_add stopped_update stopped_upsert
  stopped_query stopped_reset stopped_get_version stopped_get_max_batch_size

text \<open>
  C6. Every domain operation invoked after \<open>close\<close> has completed raises the lifecycle
  error of the running-state check and leaves the client as \<open>close\<close> left it: no request
  is issued and no connection is made. This holds for every server, every client and
  all arguments.
\<close>

theorem operations_after_close:
  "heartbeat text_int w (close s) = (Inl LifecycleError, close s)
   \<and> create_database w name tenant (close s) = (Inl LifecycleError, close s)
   \<and> get_database w name tenant (close s) = (Inl LifecycleError, close s)
   \<and> create_tenant w name (close s) = (Inl LifecycleError, close s)
   \<and> get_tenant w name (close s) = (Inl LifecycleError, close s)
   \<and> list_collections from_json w limit offset tenant database (close s)
       = (Inl LifecycleError, close s)
   \<and> count_collections w tenant database (close s) = (Inl LifecycleError, close s)
   \<and> create_collection from_json w name configuration metadata get_or_create tenant database
         (close s) = (Inl LifecycleError, close s)
   \<and> get_collection from_json w name_opt id_opt tenant database (close s)
       = (Inl LifecycleError, close s)
   \<and> get_or_create_collection from_json w name configuration metadata tenant database (close s)
       = (Inl LifecycleError, close s)
   \<and> modify w collection_id new_name metadata (close s) = (Inl LifecycleError, close s)
   \<and> delete_collection w name tenant database (close s) = (Inl LifecycleError, close s)
   \<and> count w collection_id (close s) = (Inl LifecycleError, close s)
   \<and> peek w collection_id n (close s) = (Inl LifecycleError, close s)
   \<and> get w collection_id ids_opt where_opt sort_opt limit offset page page_size where_document
         include_list (close s) = (Inl LifecycleError, close s)
   \<and> delete w collection_id ids_opt where_opt where_document (close s)
       = (Inl LifecycleError, close s)
   \<and> add w id_list collection_id embedding_list metadata_list document_list uri_list (close s)
       = (Inl LifecycleError, close s)
   \<and> update w collection_id id_list embedding_opt metadata_list document_list uri_list (close s)
       = (Inl LifecycleError, close s)
   \<and> upsert w collection_id id_list embedding_list metadata_list document_list uri_list (close s)
       = (Inl LifecycleError, close s)
   \<and> query w collection_id embedding_opt n_results where_opt where_document include_list
         (close s) = (Inl LifecycleError, close s)
   \<and> reset w (close s) = (Inl LifecycleError, close s)
   \<and> get_version w (close s) = (Inl LifecycleError, close s)
   \<and> get_max_batch_size w (close s) = (Inl LifecycleError, close s)
   \<and> requests (close s) = requests s"
proof -
  have stopped: "\<not> running (close s)"
    by (simp add: close_fields)
  show ?thesis
    by (simp only: stopped_operation [OF stopped] close_fields simp_thms)
qed

text \<open>
  C10. \<open>get_settings\<close> makes no running-state check: on every client, one that \<open>close\<close>
  has stopped included, it returns the stored settings, raises nothing and leaves the
  client as it was, so no request is issued.
\<close>

theorem get_settings_unchecked:
  "get_settings s = (Inr (settings s), s)
   \<and> get_settings (close s) = (Inr (settings s), close s)
   \<and> requests (snd (get_settings (close s))) = requests s
   \<and> \<not> running (close s)"
  by (simp add: get_settings_def close_fields)

section \<open>What a dispatch does to the client\<close>

lemma get_client_fields:
  "requests (snd (get_client l s)) = requests s \<and> running (snd (get_client l s)) = running s
   \<and> max_batch_size (snd (get_client l s)) = max_batch_size s
   \<and> api_url (snd (get_client l s)) = api_url s
   \<and> settings (snd (get_client l s)) = settings s
   \<and> event_loop (snd (get_client l s)) = event_loop s"
  by (simp add: get_client_def split: option.split)

lemma encode_json_none [simp]: "encode_json w \<lparr>json_kw = None, params_kw = ps\<rparr> = Inr None"
  by (simp add: encode_json_def)

lemma encode_json_no_kwargs [simp]: "encode_json w no_kwargs = Inr None"
  by (simp add: encode_json_def no_kwargs_def)

lemma encode_json_some:
  "encode_json w \<lparr>json_kw = Some j, params_kw = ps\<rparr>
     = (case dumps w j of Inl e \<Rightarrow> Inl e | Inr d \<Rightarrow> Inr (Some d))"
  by (simp add: encode_json_def)

lemma make_request_failed:
  "encode_json w kw = Inl e \<Longrightarrow> make_request w m p kw s = (Inl e, s)"
  by (simp add: make_request_def)

lemma make_request_fst:
  "encode_json w kw = Inr body \<Longrightarrow>
   fst (make_request w m p kw s) =
     exchange w (requests s) \<lparr>rmethod = m, url = api_url s @ quote p ''/'', params = params_kw kw,
                                 content = body\<rparr>"
  by (simp add: make_request_def Let_def split_beta get_client_fields)

lemma make_request_requests:
  "encode_json w kw = Inr body \<Longrightarrow>
   requests (snd (make_request w m p kw s)) =
     requests s @ [\<lparr>rmethod = m, url = api_url s @ quote p ''/'', params = params_kw kw,
                    content = body\<rparr>]"
  by (simp add: make_request_def Let_def split_beta get_client_fields)

lemma make_request_fields:
  "running (snd (make_request w m p kw s)) = running s
   \<and> max_batch_size (snd (make_request w m p kw s)) = max_batch_size s
   \<and> api_url (snd (make_request w m p kw s)) = api_url s
   \<and> settings (snd (make_request w m p kw s)) = settings s
   \<and> event_loop (snd (make_request w m p kw s)) = event_loop s"
  by (cases "encode_json w kw")
     (simp_all add: make_request_def Let_def split_beta get_client_fields)

section \<open>Getting a collection by name or by id\<close>

text \<open>
  C5. A call of \<open>get_collection\<close> with both a name and an id, or with neither, raises an
  error and leaves the client exactly as it was: no request is built or sent and no
  connection is made. On a running client the error is the validation error of the
  name-or-id test; on a client that is not running the running-state check, which every
  operation makes first, has raised its own error before.
\<close>

theorem get_collection_name_xor_id:
  assumes "(name = None \<and> id' = None) \<or> (name \<noteq> None \<and> id' \<noteq> None)"
  shows "\<exists>e. get_collection from_json w name id' tenant database s = (Inl e, s)
           \<and> (running s \<longrightarrow> e = ValueError (Message ''Name or id must be specified, but not both''))"
proof (cases "running s")
  case True
  from assms consider (neither) "name = None" "id' = None"
    | (both) n u where "name = Some n" "id' = Some u"
    by auto
  then show ?thesis
  proof cases
    case neither
    with True show ?thesis
      by (simp add: get_collection_def raise_for_running_def)
  next
    case both
    with True show ?thesis
      by (simp add: get_collection_def raise_for_running_def)
  qed
next
  case False
  then show ?thesis
    by (simp add: get_collection_def raise_for_running_def)
qed

theorem get_collection_name_xor_id_witness:
  "get_collection Inr (answering JNull) (Some ''x'') (Some (UUID 1)) ''t'' ''d'' client0
     = (Inl (ValueError (Message ''Name or id must be specified, but not both'')), client0)
   \<and> get_collection Inr (answering JNull) None None ''t'' ''d'' client0
     = (Inl (ValueError (Message ''Name or id must be specified, but not both'')), client0)"
proof -
  have run: "running client0"
    by (simp add: client0_def)
  have both: "(Some ''x'' = None \<and> Some (UUID 1) = None)
              \<or> (Some ''x'' \<noteq> None \<and> Some (UUID 1) \<noteq> None)"
    by simp
  have neither: "((None :: string option) = None \<and> (None :: uuid option) = None)
                 \<or> ((None :: string option) \<noteq> None \<and> (None :: uuid option) \<noteq> None)"
    by simp
  from get_collection_name_xor_id [OF both, of Inr "answering JNull" "''t''" "''d''" client0]
    get_collection_name_xor_id [OF neither, of Inr "answering JNull" "''t''" "''d''" client0]
    run
  show ?thesis by auto
qed

section \<open>Getting and querying records\<close>

lemma py_get_obj:
  "py_get (JObj kv) k d = Inr (case map_of kv k of Some v \<Rightarrow> v | None \<Rightarrow> d)"
  by (simp split: option.split)

lemma get_snd:
  assumes "running s"
  shows "snd (get w cid ids' where' sort' limit offset page page_size where_document include' s) =
   snd (make_request w ''post'' (''/collections/'' @ str_uuid cid @ ''/get'')
          \<lparr>json_kw = Some (JObj
             [(''ids'', opt_str_list ids'), (''where'', opt_json where'),
              (''sort'', opt_str sort'),
              (''limit'', opt_int (snd (paginate limit offset page page_size))),
              (''offset'', opt_int (fst (paginate limit offset page page_size))),
              (''where_document'', opt_json where_document),
              (''include'', str_list include')]),
           params_kw = None\<rparr> s)"
proof -
  obtain o1 l1 where pg: "paginate limit offset page page_size = (o1, l1)"
    by (cases "paginate limit offset page page_size")
  show ?thesis
    by (simp add: get_def running_passes [OF assms] pg split: prod.split sum.split)
qed

lemma get_not_encoded:
  assumes "running s"
    and "dumps w (JObj
             [(''ids'', opt_str_list ids'), (''where'', opt_json where'),
              (''sort'', opt_str sort'),
              (''limit'', opt_int (snd (paginate limit offset page page_size))),
              (''offset'', opt_int (fst (paginate limit offset page page_size))),
              (''where_document'', opt_json where_document),
              (''include'', str_list include')]) = Inl e"
  shows "get w cid ids' where' sort' limit offset page page_size where_document include' s
         = (Inl e, s)"
proof -
  obtain o1 l1 where pg: "paginate limit offset page page_size = (o1, l1)"
    by (cases "paginate limit offset page page_size")
  from assms(2) have "encode_json w \<lparr>json_kw = Some (JObj
             [(''ids'', opt_str_list ids'), (''where'', opt_json where'),
              (''sort'', opt_str sort'), (''limit'', opt_int l1), (''offset'', opt_int o1),
              (''where_document'', opt_json where_document),
              (''include'', str_list include')]), params_kw = None\<rparr> = Inl e"
    by (simp add: encode_json_some pg)
  then show ?thesis
    by (simp add: get_def running_passes [OF assms(1)] pg make_request_failed)
qed

lemma paginate_given:
  "paginate limit offset (Some p) (Some ps)
     = (if p \<noteq> 0 \<and> ps \<noteq> 0 then (Some ((p - 1) * ps), Some ps) else (offset, limit))"
  by (simp add: paginate_def)

text \<open>
  C2, as amended. Take a call of \<open>get\<close> on a running client in which \<open>page\<close> and
  \<open>page_size\<close> are both given. The body of the request has \<open>offset = (page - 1) * page_size\<close>
  and \<open>limit = page_size\<close> when both are different from zero, whatever \<open>limit\<close> and \<open>offset\<close>
  the caller passed as well, and it has the caller's own \<open>limit\<close> and \<open>offset\<close> when one of
  them is zero. When the encoder serialises this body, exactly one request is issued and
  carries it; when the encoder raises, the call raises the same error and nothing is
  sent.
\<close>

theorem get_page_overrides:
  assumes run: "running s"
    and body: "body = JObj
             [(''ids'', opt_str_list ids'), (''where'', opt_json where'),
              (''sort'', opt_str sort'),
              (''limit'', if p \<noteq> 0 \<and> ps \<noteq> 0 then JInt ps else opt_int limit),
              (''offset'', if p \<noteq> 0 \<and> ps \<noteq> 0 then JInt ((p - 1) * ps) else opt_int offset),
              (''where_document'', opt_json where_document),
              (''include'', str_list include')]"
  shows "(dumps w body = Inr d \<longrightarrow>
            requests (snd (get w cid ids' where' sort' limit offset (Some p) (Some ps)
                             where_document include' s))
            = requests s @
              [\<lparr>rmethod = ''post'',
                url = api_url s @ quote (''/collections/'' @ str_uuid cid @ ''/get'') ''/'',
                params = None, content = Some d\<rparr>])
         \<and> (dumps w body = Inl e \<longrightarrow>
            get w cid ids' where' sort' limit offset (Some p) (Some ps) where_document include' s
            = (Inl e, s))"
proof -
  let ?sent = "JObj
             [(''ids'', opt_str_list ids'), (''where'', opt_json where'),
              (''sort'', opt_str sort'),
              (''limit'', opt_int (snd (paginate limit offset (Some p) (Some ps)))),
              (''offset'', opt_int (fst (paginate limit offset (Some p) (Some ps)))),
              (''where_document'', opt_json where_document),
              (''include'', str_list include')]"
  have same: "?sent = body"
    by (simp add: body paginate_given opt_int_def)
  have sent: "requests (snd (get w cid ids' where' sort' limit offset (Some p) (Some ps)
                             where_document include' s))
            = requests s @
              [\<lparr>rmethod = ''post'',
                url = api_url s @ quote (''/collections/'' @ str_uuid cid @ ''/get'') ''/'',
                params = None, content = Some d\<rparr>]"
    if ok: "dumps w body = Inr d"
  proof -
    from ok have enc: "encode_json w \<lparr>json_kw = Some ?sent, params_kw = None\<rparr> = Inr (Some d)"
      by (simp only: same encode_json_some sum.case)
    show ?thesis
      by (simp only: get_snd [OF run] make_request_requests [OF enc] kwargs.simps)
  qed
  have raised: "get w cid ids' where' sort' limit offset (Some p) (Some ps) where_document
                  include' s = (Inl e, s)"
    if bad: "dumps w body = Inl e"
  proof -
    from bad have "dumps w ?sent = Inl e" by (simp only: same)
    from get_not_encoded [OF run this] show ?thesis .
  qed
  from sent raised show ?thesis by blast
qed

theorem get_page_overrides_witness:
  "map content (requests (snd (get (answering (JObj [])) (UUID 1) None None None (Some 5) (Some 3)
                                 (Some 2) (Some 10) None [] client0)))
     = [Some (Encoded (JObj [(''ids'', JNull), (''where'', JNull), (''sort'', JNull),
                             (''limit'', JInt 10), (''offset'', JInt 10),
                             (''where_document'', JNull), (''include'', JList [])]))]
   \<and> map content (requests (snd (get (answering (JObj [])) (UUID 1) None None None (Some 5) (Some 3)
                                 (Some 2) (Some 0) None [] client0)))
     = [Some (Encoded (JObj [(''ids'', JNull), (''where'', JNull), (''sort'', JNull),
                             (''limit'', JInt 5), (''offset'', JInt 3),
                             (''where_document'', JNull), (''include'', JList [])]))]
   \<and> get (answering (JObj [])) (UUID 1) None None None None None
        (Some (2 ^ 32 + 1)) (Some (2 ^ 32)) None [] client0
     = (Inl TypeError, client0)"
proof -
  have run: "running client0" by (simp add: client0_def)
  have req: "requests client0 = []" by (simp add: client0_def)
  have enc: "dumps (answering (JObj [])) = dumps_64_bits" by (simp add: answering_def)
  let ?b1 = "JObj [(''ids'', JNull), (''where'', JNull), (''sort'', JNull),
                   (''limit'', JInt 10), (''offset'', JInt 10),
                   (''where_document'', JNull), (''include'', JList [])]"
  let ?b2 = "JObj [(''ids'', JNull), (''where'', JNull), (''sort'', JNull),
                   (''limit'', JInt 5), (''offset'', JInt 3),
                   (''where_document'', JNull), (''include'', JList [])]"
  let ?b3 = "JObj [(''ids'', JNull), (''where'', JNull), (''sort'', JNull),
                   (''limit'', JInt (2 ^ 32)), (''offset'', JInt (2 ^ 64)),
                   (''where_document'', JNull), (''include'', JList [])]"
  have b1: "?b1 = JObj
             [(''ids'', opt_str_list None), (''where'', opt_json None), (''sort'', opt_str None),
              (''limit'', if (2::int) \<noteq> 0 \<and> (10::int) \<noteq> 0 then JInt 10 else opt_int (Some 5)),
              (''offset'', if (2::int) \<noteq> 0 \<and> (10::int) \<noteq> 0 then JInt ((2 - 1) * 10)
                           else opt_int (Some 3)),
              (''where_document'', opt_json None), (''include'', str_list [])]"
    by (simp add: opt_str_list_def opt_json_def opt_str_def str_list_def)
  have b2: "?b2 = JObj
             [(''ids'', opt_str_list None), (''where'', opt_json None), (''sort'', opt_str None),
              (''limit'', if (2::int) \<noteq> 0 \<and> (0::int) \<noteq> 0 then JInt 0 else opt_int (Some 5)),
              (''offset'', if (2::int) \<noteq> 0 \<and> (0::int) \<noteq> 0 then JInt ((2 - 1) * 0)
                           else opt_int (Some 3)),
              (''where_document'', opt_json None), (''include'', str_list [])]"
    by (simp add: opt_str_list_def opt_json_def opt_str_def str_list_def opt_int_def)
  have b3: "?b3 = JObj
             [(''ids'', opt_str_list None), (''where'', opt_json None), (''sort'', opt_str None),
              (''limit'', if (2 ^ 32 + 1 :: int) \<noteq> 0 \<and> (2 ^ 32 :: int) \<noteq> 0 then JInt (2 ^ 32)
                          else opt_int None),
              (''offset'', if (2 ^ 32 + 1 :: int) \<noteq> 0 \<and> (2 ^ 32 :: int) \<noteq> 0
                           then JInt ((2 ^ 32 + 1 - 1) * 2 ^ 32) else opt_int None),
              (''where_document'', opt_json None), (''include'', str_list [])]"
    by (simp add: opt_str_list_def opt_json_def opt_str_def str_list_def)
  have d1: "dumps (answering (JObj [])) ?b1 = Inr (Encoded ?b1)"
    by (simp add: enc dumps_64_bits_def)
  have d2: "dumps (answering (JObj [])) ?b2 = Inr (Encoded ?b2)"
    by (simp add: enc dumps_64_bits_def)
  have d3: "dumps (answering (JObj [])) ?b3 = Inl TypeError"
    by (simp add: enc dumps_64_bits_def)
  from get_page_overrides [OF run b1, where w = "answering (JObj [])" and d = "Encoded ?b1"] d1
  have one: "map content (requests (snd (get (answering (JObj [])) (UUID 1) None None None (Some 5)
                                 (Some 3) (Some 2) (Some 10) None [] client0)))
             = [Some (Encoded ?b1)]"
    by (simp add: req)
  from get_page_overrides [OF run b2, where w = "answering (JObj [])" and d = "Encoded ?b2"] d2
  have two: "map content (requests (snd (get (answering (JObj [])) (UUID 1) None None None (Some 5)
                                 (Some 3) (Some 2) (Some 0) None [] client0)))
             = [Some (Encoded ?b2)]"
    by (simp add: req)
  from get_page_overrides [OF run b3, where w = "answering (JObj [])" and e = TypeError] d3
  have three: "get (answering (JObj [])) (UUID 1) None None None None None
                 (Some (2 ^ 32 + 1)) (Some (2 ^ 32)) None [] client0 = (Inl TypeError, client0)"
    by simp
  from one two three show ?thesis by blast
qed

text \<open>
  C2 as stated fails where a given \<open>page\<close> or \<open>page_size\<close> is zero: the test
  \<open>if page and page_size\<close> is false there, and the caller's own \<open>limit\<close> and \<open>offset\<close> are
  sent. With \<open>page = 0\<close>, \<open>page_size = 10\<close>, \<open>limit = 5\<close> and \<open>offset = 3\<close> the body has
  \<open>limit = 5\<close> and \<open>offset = 3\<close>, not \<open>limit = 10\<close> and \<open>offset = (0 - 1) * 10\<close>.
\<close>

theorem get_page_zero_counterexample:
  "map content (requests (snd (get (answering (JObj [])) (UUID 1) None None None (Some 5) (Some 3)
                                 (Some 0) (Some 10) None [] client0)))
     = [Some (Encoded (JObj [(''ids'', JNull), (''where'', JNull), (''sort'', JNull),
                             (''limit'', JInt 5), (''offset'', JInt 3),
                             (''where_document'', JNull), (''include'', JList [])]))]
   \<and> JInt 3 \<noteq> JInt ((0 - 1) * 10) \<and> JInt 5 \<noteq> JInt 10"
proof -
  have run: "running client0" by (simp add: client0_def)
  have pg: "paginate (Some 5) (Some 3) (Some 0) (Some 10) = (Some 3, Some 5)"
    by (simp add: paginate_def)
  have req: "requests client0 = []" by (simp add: client0_def)
  have enc: "encode_json (answering (JObj []))
               \<lparr>json_kw = Some (JObj
                  [(''ids'', opt_str_list None), (''where'', opt_json None),
                   (''sort'', opt_str None),
                   (''limit'', opt_int (snd (paginate (Some 5) (Some 3) (Some 0) (Some 10)))),
                   (''offset'', opt_int (fst (paginate (Some 5) (Some 3) (Some 0) (Some 10)))),
                   (''where_document'', opt_json None), (''include'', str_list [])]),
                params_kw = None\<rparr>
             = Inr (Some (Encoded (JObj [(''ids'', JNull), (''where'', JNull), (''sort'', JNull),
                             (''limit'', JInt 5), (''offset'', JInt 3),
                             (''where_document'', JNull), (''include'', JList [])])))"
    by (simp add: encode_json_some answering_def dumps_64_bits_def pg opt_int_def
        opt_str_list_def opt_json_def opt_str_def str_list_def)
  have "map content (requests (snd (get (answering (JObj [])) (UUID 1) None None None (Some 5)
                                 (Some 3) (Some 0) (Some 10) None [] client0)))
     = [Some (Encoded (JObj [(''ids'', JNull), (''where'', JNull), (''sort'', JNull),
                             (''limit'', JInt 5), (''offset'', JInt 3),
                             (''where_document'', JNull), (''include'', JList [])]))]"
    by (simp add: get_snd [OF run] make_request_requests [OF enc] req)
  then show ?thesis by simp
qed

text \<open>
  C7. On a running client, when the body of the request is serialised and the server
  answers with a JSON object that has the key \<open>ids\<close>, the result of \<open>get\<close> and of \<open>query\<close>
  holds, for each of \<open>embeddings\<close>, \<open>metadatas\<close>, \<open>documents\<close>, \<open>uris\<close> (and \<open>distances\<close> for
  \<open>query\<close>), the value of the response unchanged when the key is present and \<open>None\<close> when
  it is missing (\<open>JNull\<close>, which is not the empty list \<open>JList []\<close>); \<open>included\<close> is the list
  the server reported when it reported one and the list the caller asked for otherwise;
  \<open>data\<close> is always \<open>None\<close>.
\<close>

theorem results_from_response:
  assumes run: "running s"
    and answer: "\<And>r. exchange w (requests s) r = Inr (JObj kv)"
    and has_ids: "map_of kv ''ids'' = Some i"
  shows "(dumps w (JObj
             [(''ids'', opt_str_list ids'), (''where'', opt_json where'),
              (''sort'', opt_str sort'),
              (''limit'', opt_int (snd (paginate limit offset page page_size))),
              (''offset'', opt_int (fst (paginate limit offset page page_size))),
              (''where_document'', opt_json where_document),
              (''include'', str_list include')]) = Inr dg \<longrightarrow>
          (\<exists>g. fst (get w cid ids' where' sort' limit offset page page_size where_document
                     include' s) = Inr g
            \<and> ids g = i
            \<and> embeddings g = (case map_of kv ''embeddings'' of Some v \<Rightarrow> v | None \<Rightarrow> JNull)
            \<and> metadatas g = (case map_of kv ''metadatas'' of Some v \<Rightarrow> v | None \<Rightarrow> JNull)
            \<and> documents g = (case map_of kv ''documents'' of Some v \<Rightarrow> v | None \<Rightarrow> JNull)
            \<and> uris g = (case map_of kv ''uris'' of Some v \<Rightarrow> v | None \<Rightarrow> JNull)
            \<and> included g = (case map_of kv ''included'' of Some v \<Rightarrow> v | None \<Rightarrow> str_list include')
            \<and> data g = JNull))
       \<and> (dumps w (JObj
             [(''query_embeddings'',
                 opt_list (map_option convert_np_embeddings_to_list query_embeddings)),
              (''n_results'', JInt n_results), (''where'', opt_json where'),
              (''where_document'', opt_json where_document),
              (''include'', str_list include')]) = Inr dq \<longrightarrow>
          (\<exists>q. fst (query w cid query_embeddings n_results where' where_document include' s) = Inr q
            \<and> ids q = i
            \<and> distances q = (case map_of kv ''distances'' of Some v \<Rightarrow> v | None \<Rightarrow> JNull)
            \<and> embeddings q = (case map_of kv ''embeddings'' of Some v \<Rightarrow> v | None \<Rightarrow> JNull)
            \<and> metadatas q = (case map_of kv ''metadatas'' of Some v \<Rightarrow> v | None \<Rightarrow> JNull)
            \<and> documents q = (case map_of kv ''documents'' of Some v \<Rightarrow> v | None \<Rightarrow> JNull)
            \<and> uris q = (case map_of kv ''uris'' of Some v \<Rightarrow> v | None \<Rightarrow> JNull)
            \<and> included q = (case map_of kv ''included'' of Some v \<Rightarrow> v | None \<Rightarrow> str_list include')
            \<and> data q = JNull))"
proof -
  have mr: "\<And>m p kw c. encode_json w kw = Inr c \<Longrightarrow> fst (make_request w m p kw s) = Inr (JObj kv)"
    by (simp only: make_request_fst answer)
  have ids: "py_getitem (JObj kv) ''ids'' = Inr i"
    using has_ids by simp
  have g: "\<exists>g. fst (get w cid ids' where' sort' limit offset page page_size where_document
                     include' s) = Inr g
            \<and> ids g = i
            \<and> embeddings g = (case map_of kv ''embeddings'' of Some v \<Rightarrow> v | None \<Rightarrow> JNull)
            \<and> metadatas g = (case map_of kv ''metadatas'' of Some v \<Rightarrow> v | None \<Rightarrow> JNull)
            \<and> documents g = (case map_of kv ''documents'' of Some v \<Rightarrow> v | None \<Rightarrow> JNull)
            \<and> uris g = (case map_of kv ''uris'' of Some v \<Rightarrow> v | None \<Rightarrow> JNull)
            \<and> included g = (case map_of kv ''included'' of Some v \<Rightarrow> v | None \<Rightarrow> str_list include')
            \<and> data g = JNull"
    if ok: "dumps w (JObj
             [(''ids'', opt_str_list ids'), (''where'', opt_json where'),
              (''sort'', opt_str sort'),
              (''limit'', opt_int (snd (paginate limit offset page page_size))),
              (''offset'', opt_int (fst (paginate limit offset page page_size))),
              (''where_document'', opt_json where_document),
              (''include'', str_list include')]) = Inr dg"
  proof -
    from ok have enc: "encode_json w \<lparr>json_kw = Some (JObj
             [(''ids'', opt_str_list ids'), (''where'', opt_json where'),
              (''sort'', opt_str sort'),
              (''limit'', opt_int (snd (paginate limit offset page page_size))),
              (''offset'', opt_int (fst (paginate limit offset page page_size))),
              (''where_document'', opt_json where_document),
              (''include'', str_list include')]), params_kw = None\<rparr> = Inr (Some dg)"
      by (simp add: encode_json_some)
    from mr [OF enc, of "''post''" "''/collections/'' @ str_uuid cid @ ''/get''"]
    show ?thesis
      by (simp add: get_def running_passes [OF run] split_beta ids py_get_obj
          del: py_get.simps py_getitem.simps split: prod.split sum.split)
  qed
  have q: "\<exists>q. fst (query w cid query_embeddings n_results where' where_document include' s) = Inr q
            \<and> ids q = i
            \<and> distances q = (case map_of kv ''distances'' of Some v \<Rightarrow> v | None \<Rightarrow> JNull)
            \<and> embeddings q = (case map_of kv ''embeddings'' of Some v \<Rightarrow> v | None \<Rightarrow> JNull)
            \<and> metadatas q = (case map_of kv ''metadatas'' of Some v \<Rightarrow> v | None \<Rightarrow> JNull)
            \<and> documents q = (case map_of kv ''documents'' of Some v \<Rightarrow> v | None \<Rightarrow> JNull)
            \<and> uris q = (case map_of kv ''uris'' of Some v \<Rightarrow> v | None \<Rightarrow> JNull)
            \<and> included q = (case map_of kv ''included'' of Some v \<Rightarrow> v | None \<Rightarrow> str_list include')
            \<and> data q = JNull"
    if ok: "dumps w (JObj
             [(''query_embeddings'',
                 opt_list (map_option convert_np_embeddings_to_list query_embeddings)),
              (''n_results'', JInt n_results), (''where'', opt_json where'),
              (''where_document'', opt_json where_document),
              (''include'', str_list include')]) = Inr dq"
  proof -
    from ok have enc: "encode_json w \<lparr>json_kw = Some (JObj
             [(''query_embeddings'',
                 opt_list (map_option convert_np_embeddings_to_list query_embeddings)),
              (''n_results'', JInt n_results), (''where'', opt_json where'),
              (''where_document'', opt_json where_document),
              (''include'', str_list include')]), params_kw = None\<rparr> = Inr (Some dq)"
      by (simp add: encode_json_some)
    from mr [OF enc, of "''post''" "''/collections/'' @ str_uuid cid @ ''/query''"]
    show ?thesis
      by (simp add: query_def running_passes [OF run] split_beta ids py_get_obj
          del: py_get.simps py_getitem.simps split: prod.split sum.split)
  qed
  from g q show ?thesis by blast
qed

theorem results_from_response_witness:
  "(\<exists>g. fst (get (answering (JObj [(''ids'', JList [JStr ''a'']), (''documents'', JList [JStr ''text''])]))
              (UUID 1) None None None None None None None None [''documents''] client0) = Inr g
        \<and> ids g = JList [JStr ''a''] \<and> embeddings g = JNull \<and> metadatas g = JNull
        \<and> documents g = JList [JStr ''text''] \<and> uris g = JNull
        \<and> included g = JList [JStr ''documents''] \<and> data g = JNull)
   \<and> (\<exists>q. fst (query (answering (JObj [(''ids'', JList [JStr ''a'']), (''documents'', JList [JStr ''text''])]))
              (UUID 1) None 10 None None [''documents''] client0) = Inr q
        \<and> ids q = JList [JStr ''a''] \<and> distances q = JNull \<and> embeddings q = JNull
        \<and> metadatas q = JNull \<and> documents q = JList [JStr ''text''] \<and> uris q = JNull
        \<and> included q = JList [JStr ''documents''] \<and> data q = JNull)"
proof -
  let ?kv = "[(''ids'', JList [JStr ''a'']), (''documents'', JList [JStr ''text''])]"
  let ?w = "answering (JObj ?kv)"
  let ?bg = "JObj
             [(''ids'', opt_str_list None), (''where'', opt_json None), (''sort'', opt_str None),
              (''limit'', opt_int (snd (paginate None None None None))),
              (''offset'', opt_int (fst (paginate None None None None))),
              (''where_document'', opt_json None), (''include'', str_list [''documents''])]"
  let ?bq = "JObj
             [(''query_embeddings'', opt_list (map_option convert_np_embeddings_to_list None)),
              (''n_results'', JInt 10), (''where'', opt_json None),
              (''where_document'', opt_json None), (''include'', str_list [''documents''])]"
  have run: "running client0" by (simp add: client0_def)
  have answer: "\<And>r. exchange ?w (requests client0) r = Inr (JObj ?kv)"
    by (simp add: answering_def)
  have has_ids: "map_of ?kv ''ids'' = Some (JList [JStr ''a''])"
    by simp
  have dg: "dumps ?w ?bg = Inr (Encoded ?bg)"
    by (simp add: answering_def dumps_64_bits_def paginate_def opt_int_def opt_str_list_def
        opt_json_def opt_str_def str_list_def)
  have dq: "dumps ?w ?bq = Inr (Encoded ?bq)"
    by (simp add: answering_def dumps_64_bits_def opt_list_def opt_json_def str_list_def)
  from results_from_response [where s = client0 and w = ?w and kv = ?kv
        and i = "JList [JStr ''a'']" and cid = "UUID 1" and ids' = None and where' = None
        and sort' = None and limit = None and offset = None and page = None and page_size = None
        and where_document = None and include' = "[''documents'']" and query_embeddings = None
        and n_results = 10 and dg = "Encoded ?bg" and dq = "Encoded ?bq", OF run answer has_ids]
    dg dq
  show ?thesis
    by (simp add: str_list_def)
qed

text \<open>
  C1. A call of \<open>get_collection\<close> with an id and no name should request the path
  \<open>/collections/\<close> followed by the id. The path expression gives the prefix to the
  by-name branch only, so the request goes to the base URL followed directly by the id,
  as this evaluation on a started client shows; the \<open>type\<close> parameter carries the id too.
\<close>

theorem get_collection_by_id_path:
  "requests (snd (get_collection Inr (answering (JObj [])) None
                    (Some (UUID 0x12345678123456781234567812345678))
                    ''default_tenant'' ''default_database'' client0))
   = [\<lparr>rmethod = ''get'',
       url = ''http://localhost:8000/api/v112345678-1234-5678-1234-567812345678'',
       params = Some [(''tenant'', JStr ''default_tenant''), (''database'', JStr ''default_database''),
                      (''type'', JStr ''12345678-1234-5678-1234-567812345678'')],
       content = None\<rparr>]"
proof -
  have u: "str_uuid (UUID 0x12345678123456781234567812345678)
           = ''12345678-1234-5678-1234-567812345678''"
    by (simp add: str_uuid_def hex32_def hex_digit_def upt_rec)
  have q: "quote ''12345678-1234-5678-1234-567812345678'' ''/''
           = ''12345678-1234-5678-1234-567812345678''"
    by (simp add: quote_def quoter_def always_safe_def)
  have run: "raise_for_running client0 = Inr ()"
    by (simp add: raise_for_running_def client0_def)
  have f: "requests client0 = [] \<and> api_url client0 = ''http://localhost:8000/api/v1''"
    by (simp add: client0_def)
  have ans: "\<And>history r. exchange (answering (JObj [])) history r = Inr (JObj [])"
    by (simp add: answering_def)
  show ?thesis
    by (simp add: get_collection_def run str_opt_uuid_def u split_beta Let_def
        make_request_fst [OF encode_json_none] ans make_request_requests [OF encode_json_none]
        q f)
qed

section \<open>Escaping the path\<close>

lemma quoter_slash:
  "quoter ''/'' c =
     (if c \<in> set always_safe \<or> c = CHR ''/'' then [c]
      else [CHR ''%'', hex_digit True ((of_char c :: nat) div 16), hex_digit True (of_char c)])"
  by (simp add: quoter_def)

lemma reserved_not_safe: "c \<in> set reserved \<Longrightarrow> c \<notin> set always_safe"
  by (auto simp: reserved_def always_safe_def)

lemma hex_digit_upper: "hex_digit True n \<in> set ''0123456789ABCDEF''"
proof -
  have "n mod 16 < length ''0123456789ABCDEF''" by simp
  then have "''0123456789ABCDEF'' ! (n mod 16) \<in> set ''0123456789ABCDEF''"
    by (rule nth_mem)
  then show ?thesis by (simp only: hex_digit_def if_True)
qed

lemma hex_digit_not_reserved: "hex_digit True n \<notin> set reserved"
  using hex_digit_upper [of n] by (auto simp: reserved_def)

lemma percent_not_reserved: "CHR ''%'' \<notin> set reserved"
  by (simp add: reserved_def)

lemma quoter_reserved:
  assumes "x \<in> set (quoter ''/'' c)" and "x \<in> set reserved"
  shows "x = CHR ''/''"
proof (cases "c \<in> set always_safe \<or> c = CHR ''/''")
  case True
  with assms(1) have "x = c" by (simp add: quoter_slash)
  with True assms(2) show ?thesis using reserved_not_safe by blast
next
  case False
  with assms(1) have "x = CHR ''%'' \<or> x = hex_digit True ((of_char c :: nat) div 16)
                      \<or> x = hex_digit True (of_char c)"
    by (simp add: quoter_slash)
  with assms(2) show ?thesis
    using hex_digit_not_reserved percent_not_reserved by blast
qed

text \<open>
  C9. Every request goes through \<open>make_request\<close>, which issues it at the base URL
  followed by the percent-encoded path; a call whose body the encoder rejects issues
  nothing. The encoding works character by character: it keeps \<open>/\<close>, replaces every
  other reserved character by \<open>%\<close> and two hexadecimal digits, and so leaves no reserved
  character other than \<open>/\<close> in the escaped path, whatever name or id the path was built
  from.
\<close>

theorem make_request_escapes_path:
  "(encode_json w kw = Inr body \<longrightarrow>
      (\<exists>r. requests (snd (make_request w method path kw s)) = requests s @ [r]
          \<and> rmethod r = method \<and> url r = api_url s @ quote path ''/''))
   \<and> (encode_json w kw = Inl e \<longrightarrow> make_request w method path kw s = (Inl e, s))
   \<and> quote path ''/'' =
       concat (map (\<lambda>c. if c = CHR ''/'' then ''/''
                         else if c \<in> set reserved
                         then [CHR ''%'', hex_digit True ((of_char c :: nat) div 16),
                               hex_digit True (of_char c)]
                         else quoter ''/'' c) path)
   \<and> (\<forall>c \<in> set (quote path ''/''). c \<in> set reserved \<longrightarrow> c = CHR ''/'')"
proof -
  have a: "encode_json w kw = Inr body \<longrightarrow>
      (\<exists>r. requests (snd (make_request w method path kw s)) = requests s @ [r]
          \<and> rmethod r = method \<and> url r = api_url s @ quote path ''/'')"
    by (simp add: make_request_requests)
  have a': "encode_json w kw = Inl e \<longrightarrow> make_request w method path kw s = (Inl e, s)"
    by (simp add: make_request_failed)
  have "quoter ''/'' c = (if c = CHR ''/'' then ''/''
                         else if c \<in> set reserved
                         then [CHR ''%'', hex_digit True ((of_char c :: nat) div 16),
                               hex_digit True (of_char c)]
                         else quoter ''/'' c)" for c
    using reserved_not_safe [of c] by (auto simp: quoter_slash)
  then have b: "quote path ''/'' =
       concat (map (\<lambda>c. if c = CHR ''/'' then ''/''
                         else if c \<in> set reserved
                         then [CHR ''%'', hex_digit True ((of_char c :: nat) div 16),
                               hex_digit True (of_char c)]
                         else quoter ''/'' c) path)"
    unfolding quote_def by (intro arg_cong [where f = concat] map_cong refl)
  have c: "\<forall>c \<in> set (quote path ''/''). c \<in> set reserved \<longrightarrow> c = CHR ''/''"
    using quoter_reserved by (auto simp: quote_def)
  from a a' b c show ?thesis by blast
qed

theorem make_request_escapes_path_witness:
  "map url (requests (snd (make_request (answering JNull) ''get'' ''/collections/a b?c#d/e''
                             no_kwargs client0)))
   = [''http://localhost:8000/api/v1/collections/a%20b%3Fc%23d/e'']"
proof -
  have q: "quote ''/collections/a b?c#d/e'' ''/'' = ''/collections/a%20b%3Fc%23d/e''"
    by (simp add: quote_def quoter_def always_safe_def hex_digit_def)
  have f: "requests client0 = [] \<and> api_url client0 = ''http://localhost:8000/api/v1''"
    by (simp add: client0_def)
  have enc: "encode_json (answering JNull) no_kwargs = Inr None"
    by simp
  from make_request_escapes_path [of "answering JNull" no_kwargs None "''get''"
      "''/collections/a b?c#d/e''" client0] enc
  show ?thesis
    by (auto simp: q f)
qed

section \<open>The cached maximum batch size\<close>

lemma quote_pre_flight: "quote ''/pre-flight-checks'' ''/'' = ''/pre-flight-checks''"
  by (simp add: quote_def quoter_def always_safe_def)

lemma make_request_pre_flight:
  "fst (make_request w ''get'' ''/pre-flight-checks'' no_kwargs s) = exchange w (requests s) (pre_flight s)
   \<and> requests (snd (make_request w ''get'' ''/pre-flight-checks'' no_kwargs s))
       = requests s @ [pre_flight s]"
  by (simp add: no_kwargs_def make_request_fst [OF encode_json_none]
      make_request_requests [OF encode_json_none] quote_pre_flight pre_flight_def)

lemma get_max_batch_size_cached:
  assumes "running s" and "\<not> py_eq_minus_one (max_batch_size s)"
  shows "get_max_batch_size w s = (Inr (max_batch_size s), s)"
  using assms by (simp add: get_max_batch_size_def running_passes)

lemma get_max_batch_size_fetched:
  assumes "running s" and "py_eq_minus_one (max_batch_size s)"
    and "exchange w (requests s) (pre_flight s) = Inr resp"
    and "py_getitem resp ''max_batch_size'' = Inr v"
  shows "\<exists>s1. get_max_batch_size w s = (Inr v, s1) \<and> running s1 \<and> max_batch_size s1 = v
           \<and> requests s1 = requests s @ [pre_flight s] \<and> api_url s1 = api_url s"
proof -
  obtain res s0 where mr: "make_request w ''get'' ''/pre-flight-checks'' no_kwargs s = (res, s0)"
    by (cases "make_request w ''get'' ''/pre-flight-checks'' no_kwargs s")
  from mr make_request_pre_flight [of w s] assms(3)
  have res: "res = Inr resp" and req: "requests s0 = requests s @ [pre_flight s]"
    by simp_all
  from mr make_request_fields [of w "''get''" "''/pre-flight-checks''" no_kwargs s]
  have fields: "running s0 = running s" "api_url s0 = api_url s"
    by simp_all
  have "get_max_batch_size w s = (Inr v, s0\<lparr>max_batch_size := v\<rparr>)"
    using assms(1,2,4) by (simp add: get_max_batch_size_def running_passes mr res)
  with req fields assms(1) show ?thesis by simp
qed

lemma get_max_batch_size_failed:
  assumes "running s" and "py_eq_minus_one (max_batch_size s)"
    and "exchange w (requests s) (pre_flight s) = Inl e"
  shows "\<exists>s1. get_max_batch_size w s = (Inl e, s1) \<and> running s1
           \<and> max_batch_size s1 = max_batch_size s
           \<and> requests s1 = requests s @ [pre_flight s] \<and> api_url s1 = api_url s"
proof -
  obtain res s0 where mr: "make_request w ''get'' ''/pre-flight-checks'' no_kwargs s = (res, s0)"
    by (cases "make_request w ''get'' ''/pre-flight-checks'' no_kwargs s")
  from mr make_request_pre_flight [of w s] assms(3)
  have res: "res = Inl e" and req: "requests s0 = requests s @ [pre_flight s]"
    by simp_all
  from mr make_request_fields [of w "''get''" "''/pre-flight-checks''" no_kwargs s]
  have fields: "running s0 = running s" "api_url s0 = api_url s"
    "max_batch_size s0 = max_batch_size s"
    by simp_all
  have "get_max_batch_size w s = (Inl e, s0)"
    using assms(1,2) by (simp add: get_max_batch_size_def running_passes mr res)
  with req fields assms(1) show ?thesis by simp
qed

section \<open>Batches larger than the maximum\<close>

lemma validate_batch_oversized:
  assumes "m < int (length ids')"
  shows "validate_batch (ids', e, me, d, u) (JInt m) = Inl (ValueError (BatchSize (length ids') (JInt m)))"
  using assms by (simp add: validate_batch_def)

lemma validate_and_submit_oversized:
  assumes run: "running s"
    and bound: "if py_eq_minus_one (max_batch_size s)
                then exchange w (requests s) (pre_flight s) = Inr resp
                     \<and> py_getitem resp ''max_batch_size'' = Inr (JInt m)
                else max_batch_size s = JInt m"
    and over: "m < int (length ids')"
  shows "\<exists>s'. validate_and_submit w (ids', e, me, d, u) path s
                = (Inl (ValueError (BatchSize (length ids') (JInt m))), s')
              \<and> requests s' = requests s @ (if py_eq_minus_one (max_batch_size s)
                                             then [pre_flight s] else [])"
proof (cases "py_eq_minus_one (max_batch_size s)")
  case True
  with bound have answered: "exchange w (requests s) (pre_flight s) = Inr resp"
    and item: "py_getitem resp ''max_batch_size'' = Inr (JInt m)"
    by simp_all
  from get_max_batch_size_fetched [where w = w, OF run True answered item]
  obtain s1 where first: "get_max_batch_size w s = (Inr (JInt m), s1)"
    and req1: "requests s1 = requests s @ [pre_flight s]"
    by blast
  show ?thesis
    by (simp add: validate_and_submit_def first validate_batch_oversized [OF over] req1 True)
next
  case False
  with bound have m: "max_batch_size s = JInt m" by simp
  from get_max_batch_size_cached [OF run False, of w] m
  have first: "get_max_batch_size w s = (Inr (JInt m), s)" by simp
  show ?thesis
    by (simp add: validate_and_submit_def first validate_batch_oversized [OF over] False)
qed

lemma batch_steps:
  assumes "running s"
  shows "add w ids' cid embeddings' metadatas' documents' uris' s
         = validate_and_submit w
             (ids', Some (convert_np_embeddings_to_list embeddings'), metadatas', documents', uris')
             (''/collections/'' @ str_uuid cid @ ''/add'') s"
    and "update w cid ids' embeddings_opt metadatas' documents' uris' s
         = validate_and_submit w
             (ids', map_option convert_np_embeddings_to_list embeddings_opt, metadatas', documents',
              uris')
             (''/collections/'' @ str_uuid cid @ ''/update'') s"
    and "upsert w cid ids' embeddings' metadatas' documents' uris' s
         = validate_and_submit w
             (ids', Some (convert_np_embeddings_to_list embeddings'), metadatas', documents', uris')
             (''/collections/'' @ str_uuid cid @ ''/upsert'') s"
  by (simp_all only: add_def update_def upsert_def validate_and_submit_def Let_def
      running_passes [OF assms] sum.case)

text \<open>
  C3, as amended. On a running client, a batch submitted through \<open>add\<close>, \<open>update\<close> or
  \<open>upsert\<close> with more ids than the maximum batch size \<open>m\<close> raises the validation error
  that names the attempted size and the maximum, and no submission request is issued.
  When the maximum is cached already, no request at all is issued; when it is still
  unfetched, exactly one request is issued before the error, the fetch of the maximum
  from the pre-flight endpoint, which the server answers with \<open>m\<close>.
\<close>

theorem oversized_batch_rejected:
  assumes run: "running s"
    and bound: "if py_eq_minus_one (max_batch_size s)
                then exchange w (requests s) (pre_flight s) = Inr resp
                     \<and> py_getitem resp ''max_batch_size'' = Inr (JInt m)
                else max_batch_size s = JInt m"
    and over: "m < int (length ids')"
  shows "(\<exists>s'. add w ids' cid embeddings' metadatas' documents' uris' s
                = (Inl (ValueError (BatchSize (length ids') (JInt m))), s')
              \<and> requests s' = requests s @ (if py_eq_minus_one (max_batch_size s)
                                             then [pre_flight s] else []))
       \<and> (\<exists>s'. update w cid ids' embeddings_opt metadatas' documents' uris' s
                = (Inl (ValueError (BatchSize (length ids') (JInt m))), s')
              \<and> requests s' = requests s @ (if py_eq_minus_one (max_batch_size s)
                                             then [pre_flight s] else []))
       \<and> (\<exists>s'. upsert w cid ids' embeddings' metadatas' documents' uris' s
                = (Inl (ValueError (BatchSize (length ids') (JInt m))), s')
              \<and> requests s' = requests s @ (if py_eq_minus_one (max_batch_size s)
                                             then [pre_flight s] else []))"
  unfolding batch_steps [OF run]
  by (intro conjI validate_and_submit_oversized [where w = w, OF run bound over])

theorem oversized_batch_rejected_witness:
  "(\<exists>s'. add (answering JNull) [''a'', ''b'', ''c''] (UUID 1) [JNull, JNull, JNull] None None None
            (client0\<lparr>max_batch_size := JInt 2\<rparr>)
          = (Inl (ValueError (BatchSize (length [''a'', ''b'', ''c'']) (JInt 2))), s')
        \<and> requests s' = [])
   \<and> (\<exists>s'. update (answering JNull) (UUID 1) [''a'', ''b'', ''c''] None None None None
            (client0\<lparr>max_batch_size := JInt 2\<rparr>)
          = (Inl (ValueError (BatchSize (length [''a'', ''b'', ''c'']) (JInt 2))), s')
        \<and> requests s' = [])
   \<and> (\<exists>s'. upsert (answering JNull) (UUID 1) [''a'', ''b'', ''c''] [JNull, JNull, JNull] None None
            None (client0\<lparr>max_batch_size := JInt 2\<rparr>)
          = (Inl (ValueError (BatchSize (length [''a'', ''b'', ''c'']) (JInt 2))), s')
        \<and> requests s' = [])"
proof -
  let ?s = "client0\<lparr>max_batch_size := JInt 2\<rparr>"
  have run: "running ?s" by (simp add: client0_def)
  have bound: "if py_eq_minus_one (max_batch_size ?s)
                then exchange (answering JNull) (requests ?s) (pre_flight ?s) = Inr JNull
                     \<and> py_getitem JNull ''max_batch_size'' = Inr (JInt 2)
                else max_batch_size ?s = JInt 2"
    by simp
  have over: "2 < int (length [''a'', ''b'', ''c''])" by simp
  have none: "requests ?s @ (if py_eq_minus_one (max_batch_size ?s) then [pre_flight ?s] else [])
              = []"
    by (simp add: client0_def)
  from oversized_batch_rejected [where w = "answering JNull" and s = ?s and resp = JNull
      and cid = "UUID 1" and embeddings' = "[JNull, JNull, JNull]" and metadatas' = None
      and documents' = None and uris' = None and embeddings_opt = None, OF run bound over]
  show ?thesis
    unfolding none .
qed

text \<open>
  C3 as stated fails on a client that has not fetched the maximum yet: with a server that
  advertises a maximum of 2, adding three records to a started client raises the
  validation error, and one request has been issued before it.
\<close>

theorem oversized_batch_fetch_counterexample:
  "fst (add (answering (JObj [(''max_batch_size'', JInt 2)])) [''a'', ''b'', ''c''] (UUID 1)
          [JNull, JNull, JNull] None None None client0)
     = Inl (ValueError (BatchSize 3 (JInt 2)))
   \<and> requests (snd (add (answering (JObj [(''max_batch_size'', JInt 2)])) [''a'', ''b'', ''c'']
                       (UUID 1) [JNull, JNull, JNull] None None None client0))
     = [\<lparr>rmethod = ''get'', url = ''http://localhost:8000/api/v1/pre-flight-checks'',
         params = None, content = None\<rparr>]"
proof -
  let ?w = "answering (JObj [(''max_batch_size'', JInt 2)])"
  have run: "running client0" by (simp add: client0_def)
  have unfetched: "py_eq_minus_one (max_batch_size client0)" by (simp add: client0_def)
  have item: "py_getitem (JObj [(''max_batch_size'', JInt 2)]) ''max_batch_size'' = Inr (JInt 2)"
    by simp
  have "exchange ?w (requests client0) (pre_flight client0) = Inr (JObj [(''max_batch_size'', JInt 2)])"
    by (simp add: answering_def)
  from get_max_batch_size_fetched [where w = ?w, OF run unfetched this item]
  obtain s1 where first: "get_max_batch_size ?w client0 = (Inr (JInt 2), s1)"
    and req1: "requests s1 = requests client0 @ [pre_flight client0]"
    by blast
  have pf: "requests client0 @ [pre_flight client0]
            = [\<lparr>rmethod = ''get'', url = ''http://localhost:8000/api/v1/pre-flight-checks'',
                params = None, content = None\<rparr>]"
    by (simp add: client0_def pre_flight_def)
  show ?thesis
    by (simp add: add_def running_passes [OF run] Let_def first validate_batch_def req1 pf)
qed


section \<open>One connection for each event loop\<close>


















section \<open>Fetching the maximum batch size at most once\<close>

lemma submit_batch_posts:
  assumes "running s"
  shows "\<exists>r s1 new. submit_batch w b path s = (r, s1) \<and> running s1
           \<and> max_batch_size s1 = max_batch_size s \<and> api_url s1 = api_url s
           \<and> requests s1 = requests s @ new \<and> (\<forall>x \<in> set new. rmethod x = ''post'')"
proof -
  obtain i e m d u where b: "b = (i, e, m, d, u)" by (cases b) auto
  let ?kw = "\<lparr>json_kw = Some (JObj
                 [(''ids'', str_list i), (''embeddings'', opt_list e),
                  (''metadatas'', opt_list m), (''documents'', opt_str_list d),
                  (''uris'', opt_str_list u)]),
               params_kw = None\<rparr>"
  have eq: "submit_batch w b path s = make_request w ''post'' path ?kw s"
    by (simp add: submit_batch_def running_passes [OF assms] b)
  show ?thesis
  proof (cases "encode_json w ?kw")
    case (Inl err)
    from make_request_failed [OF Inl, of "''post''" path s] assms
    show ?thesis
      by (simp add: eq)
  next
    case (Inr body)
    obtain r s1 where mr: "make_request w ''post'' path ?kw s = (r, s1)"
      by (cases "make_request w ''post'' path ?kw s")
    from mr make_request_fields [of w "''post''" path ?kw s]
      make_request_requests [OF Inr, of "''post''" path s] assms
    have "submit_batch w b path s = (r, s1) \<and> running s1
           \<and> max_batch_size s1 = max_batch_size s \<and> api_url s1 = api_url s
           \<and> requests s1 = requests s
                @ [\<lparr>rmethod = ''post'', url = api_url s @ quote path ''/'', params = None,
                    content = body\<rparr>]
           \<and> (\<forall>x \<in> set [\<lparr>rmethod = ''post'', url = api_url s @ quote path ''/'',
                            params = None, content = body\<rparr>]. rmethod x = ''post'')"
      by (simp add: eq)
    then show ?thesis by blast
  qed
qed

lemma validate_and_submit_after:
  assumes "running s1"
  shows "\<exists>r s2 new. (case validate_batch b limit of
             Inl e \<Rightarrow> (Inl e, s1)
           | Inr _ \<Rightarrow>
               (case submit_batch w b path s1 of
                  (Inl e, s2) \<Rightarrow> (Inl e, s2)
                | (Inr _, s2) \<Rightarrow> (Inr True, s2))) = (r, s2)
           \<and> running s2 \<and> max_batch_size s2 = max_batch_size s1 \<and> api_url s2 = api_url s1
           \<and> requests s2 = requests s1 @ new \<and> (\<forall>x \<in> set new. rmethod x = ''post'')"
proof (cases "validate_batch b limit")
  case (Inl e)
  with assms show ?thesis by simp
next
  case (Inr u)
  from submit_batch_posts [OF assms, where w = w and b = b and path = path]
  obtain r s2 new where sb: "submit_batch w b path s1 = (r, s2)" and p: "running s2"
    "max_batch_size s2 = max_batch_size s1" "api_url s2 = api_url s1"
    "requests s2 = requests s1 @ new" "\<forall>x \<in> set new. rmethod x = ''post''"
    by blast
  show ?thesis
    by (cases r) (simp_all add: Inr sb p)
qed

lemma validate_and_submit_cached:
  assumes "running s" and "\<not> py_eq_minus_one (max_batch_size s)"
  shows "\<exists>r s2 new. validate_and_submit w b path s = (r, s2)
           \<and> running s2 \<and> max_batch_size s2 = max_batch_size s \<and> api_url s2 = api_url s
           \<and> requests s2 = requests s @ new \<and> (\<forall>x \<in> set new. rmethod x = ''post'')"
  using validate_and_submit_after [OF assms(1), where b = b and limit = "max_batch_size s" and w = w and path = path]
  by (simp add: validate_and_submit_def get_max_batch_size_cached [OF assms])

lemma validate_and_submit_unfetched:
  assumes "running s" and "py_eq_minus_one (max_batch_size s)"
    and "exchange w (requests s) (pre_flight s) = Inr resp"
    and "py_getitem resp ''max_batch_size'' = Inr v"
  shows "\<exists>r s2 new. validate_and_submit w b path s = (r, s2)
           \<and> running s2 \<and> max_batch_size s2 = v \<and> api_url s2 = api_url s
           \<and> requests s2 = requests s @ pre_flight s # new
           \<and> (\<forall>x \<in> set new. rmethod x = ''post'')"
proof -
  from get_max_batch_size_fetched [where w = w, OF assms]
  obtain s1 where first: "get_max_batch_size w s = (Inr v, s1)" and p: "running s1"
    "max_batch_size s1 = v" "requests s1 = requests s @ [pre_flight s]" "api_url s1 = api_url s"
    by blast
  from validate_and_submit_after [OF p(1), where b = b and limit = v and w = w and path = path] p
  show ?thesis
    by (simp add: validate_and_submit_def first)
qed

lemma run_call_cached:
  assumes "running s" and "\<not> py_eq_minus_one (max_batch_size s)"
  shows "\<exists>r s2 new. run_call w c s = (r, s2)
           \<and> running s2 \<and> max_batch_size s2 = max_batch_size s \<and> api_url s2 = api_url s
           \<and> requests s2 = requests s @ new \<and> (\<forall>x \<in> set new. rmethod x = ''post'')
           \<and> (c = GetMaxBatchSize \<longrightarrow> r = Inr (max_batch_size s))"
proof (cases c)
  case GetMaxBatchSize
  with assms show ?thesis
    by (simp add: get_max_batch_size_cached)
next
  case (Add i cid e m d u)
  from validate_and_submit_cached [OF assms, where w = w]
  show ?thesis
    by (simp add: Add batch_steps [OF assms(1)] split_beta) (metis snd_conv)
next
  case (Update cid i e m d u)
  from validate_and_submit_cached [OF assms, where w = w]
  show ?thesis
    by (simp add: Update batch_steps [OF assms(1)] split_beta) (metis snd_conv)
next
  case (Upsert cid i e m d u)
  from validate_and_submit_cached [OF assms, where w = w]
  show ?thesis
    by (simp add: Upsert batch_steps [OF assms(1)] split_beta) (metis snd_conv)
qed


lemma run_call_unfetched:
  assumes "running s" and "py_eq_minus_one (max_batch_size s)"
    and "exchange w (requests s) (pre_flight s) = Inr resp"
    and "py_getitem resp ''max_batch_size'' = Inr v"
  shows "\<exists>r s2 new. run_call w c s = (r, s2)
           \<and> running s2 \<and> max_batch_size s2 = v \<and> api_url s2 = api_url s
           \<and> requests s2 = requests s @ pre_flight s # new
           \<and> (\<forall>x \<in> set new. rmethod x = ''post'')
           \<and> (c = GetMaxBatchSize \<longrightarrow> r = Inr v)"
proof (cases c)
  case GetMaxBatchSize
  from get_max_batch_size_fetched [where w = w, OF assms]
  show ?thesis
    by (auto simp: GetMaxBatchSize)
next
  case (Add i cid e m d u)
  from validate_and_submit_unfetched [where w = w, OF assms]
  show ?thesis
    by (simp add: Add batch_steps [OF assms(1)] split_beta) (metis snd_conv)
next
  case (Update cid i e m d u)
  from validate_and_submit_unfetched [where w = w, OF assms]
  show ?thesis
    by (simp add: Update batch_steps [OF assms(1)] split_beta) (metis snd_conv)
next
  case (Upsert cid i e m d u)
  from validate_and_submit_unfetched [where w = w, OF assms]
  show ?thesis
    by (simp add: Upsert batch_steps [OF assms(1)] split_beta) (metis snd_conv)
qed

lemma run_calls_cached:
  assumes "running s" and "\<not> py_eq_minus_one (max_batch_size s)"
  shows "\<exists>posts. requests (snd (run_calls w cs s)) = requests s @ posts
           \<and> (\<forall>x \<in> set posts. rmethod x = ''post'')
           \<and> (\<forall>i < length cs. cs ! i = GetMaxBatchSize \<longrightarrow>
                  fst (run_calls w cs s) ! i = Inr (max_batch_size s))"
  using assms
proof (induction cs arbitrary: s)
  case Nil
  then show ?case by simp
next
  case (Cons c cs)
  from run_call_cached [OF Cons.prems, where w = w and c = c]
  obtain r s2 new where step: "run_call w c s = (r, s2)" and run2: "running s2"
    and max2: "max_batch_size s2 = max_batch_size s"
    and req2: "requests s2 = requests s @ new" and posts2: "\<forall>x \<in> set new. rmethod x = ''post''"
    and res: "c = GetMaxBatchSize \<longrightarrow> r = Inr (max_batch_size s)"
    by blast
  from Cons.prems(2) max2 have cached2: "\<not> py_eq_minus_one (max_batch_size s2)" by simp
  from Cons.IH [OF run2 cached2]
  obtain posts where rest: "requests (snd (run_calls w cs s2)) = requests s2 @ posts"
    and posts: "\<forall>x \<in> set posts. rmethod x = ''post''"
    and results: "\<forall>i < length cs. cs ! i = GetMaxBatchSize \<longrightarrow>
                    fst (run_calls w cs s2) ! i = Inr (max_batch_size s2)"
    by blast
  have a: "requests (snd (run_calls w (c # cs) s)) = requests s @ (new @ posts)"
    by (simp add: step split_beta rest req2)
  have b: "\<forall>x \<in> set (new @ posts). rmethod x = ''post''"
    using posts2 posts by auto
  have c: "\<forall>i < length (c # cs). (c # cs) ! i = GetMaxBatchSize \<longrightarrow>
             fst (run_calls w (c # cs) s) ! i = Inr (max_batch_size s)"
  proof (intro allI impI)
    fix i
    assume i: "i < length (c # cs)" and get: "(c # cs) ! i = GetMaxBatchSize"
    have all: "fst (run_calls w (c # cs) s) = r # fst (run_calls w cs s2)"
      by (simp add: step split_beta)
    from i get res results max2
    show "fst (run_calls w (c # cs) s) ! i = Inr (max_batch_size s)"
      unfolding all by (cases i) simp_all
  qed
  from a b c show ?case by blast
qed

lemma run_calls_fetch_once:
  assumes run: "running s"
    and fetch: "py_eq_minus_one (max_batch_size s) \<Longrightarrow>
                  exchange w (requests s) (pre_flight s) = Inr resp
                  \<and> py_getitem resp ''max_batch_size'' = Inr v \<and> \<not> py_eq_minus_one v"
    and cached: "\<not> py_eq_minus_one (max_batch_size s) \<Longrightarrow> v = max_batch_size s"
  shows "\<exists>posts. requests (snd (run_calls w cs s))
                   = requests s
                     @ (if py_eq_minus_one (max_batch_size s) \<and> cs \<noteq> [] then [pre_flight s] else [])
                     @ posts
           \<and> (\<forall>x \<in> set posts. rmethod x = ''post'')
           \<and> (\<forall>i < length cs. cs ! i = GetMaxBatchSize \<longrightarrow> fst (run_calls w cs s) ! i = Inr v)"
proof (cases "py_eq_minus_one (max_batch_size s)")
  case False
  from run_calls_cached [OF run False, of w cs] cached [OF False]
  show ?thesis by (simp add: False)
next
  case True
  show ?thesis
  proof (cases cs)
    case Nil
    then show ?thesis by simp
  next
    case (Cons c rest)
    from fetch [OF True] have answered: "exchange w (requests s) (pre_flight s) = Inr resp"
      and item: "py_getitem resp ''max_batch_size'' = Inr v" and real: "\<not> py_eq_minus_one v"
      by simp_all
    from run_call_unfetched [where w = w and c = c, OF run True answered item]
    obtain r s2 new where step: "run_call w c s = (r, s2)" and run2: "running s2"
      and max2: "max_batch_size s2 = v"
      and req2: "requests s2 = requests s @ pre_flight s # new"
      and posts2: "\<forall>x \<in> set new. rmethod x = ''post''"
      and res: "c = GetMaxBatchSize \<longrightarrow> r = Inr v"
      by blast
    from real max2 have cached2: "\<not> py_eq_minus_one (max_batch_size s2)" by simp
    from run_calls_cached [OF run2 cached2, of w rest]
    obtain posts where rest: "requests (snd (run_calls w rest s2)) = requests s2 @ posts"
      and posts: "\<forall>x \<in> set posts. rmethod x = ''post''"
      and results: "\<forall>i < length rest. rest ! i = GetMaxBatchSize \<longrightarrow>
                      fst (run_calls w rest s2) ! i = Inr (max_batch_size s2)"
      by blast
    have a: "requests (snd (run_calls w cs s))
             = requests s @ (if py_eq_minus_one (max_batch_size s) \<and> cs \<noteq> [] then [pre_flight s] else [])
               @ (new @ posts)"
      by (simp add: Cons True step split_beta rest req2)
    have b: "\<forall>x \<in> set (new @ posts). rmethod x = ''post''"
      using posts2 posts by auto
    have c: "\<forall>i < length cs. cs ! i = GetMaxBatchSize \<longrightarrow> fst (run_calls w cs s) ! i = Inr v"
    proof (intro allI impI)
      fix i
      assume i: "i < length cs" and get: "cs ! i = GetMaxBatchSize"
      have all: "fst (run_calls w (c # rest) s) = r # fst (run_calls w rest s2)"
        by (simp add: step split_beta)
      from i get res results max2
      show "fst (run_calls w cs s) ! i = Inr v"
        unfolding Cons all by (cases i) simp_all
    qed
    from a b c show ?thesis by blast
  qed
qed


lemma minus_one_rejected:
  assumes "py_eq_minus_one v"
  shows "\<exists>r. validate_batch b v = Inl r"
proof -
  obtain i e m d u where b: "b = (i, e, m, d, u)" by (cases b) auto
  from assms show ?thesis
    by (cases v) (simp_all add: validate_batch_def b)
qed

lemma get_max_batch_size_unfetched:
  assumes "running s" and "py_eq_minus_one (max_batch_size s)"
  shows "\<exists>r s1. get_max_batch_size w s = (r, s1) \<and> running s1 \<and> api_url s1 = api_url s
           \<and> requests s1 = requests s @ [pre_flight s]
           \<and> ((\<exists>resp v. exchange w (requests s) (pre_flight s) = Inr resp
                   \<and> py_getitem resp ''max_batch_size'' = Inr v
                   \<and> r = Inr v \<and> max_batch_size s1 = v)
                \<or> ((\<exists>e. r = Inl e) \<and> max_batch_size s1 = max_batch_size s))"
proof -
  obtain res s0 where mr: "make_request w ''get'' ''/pre-flight-checks'' no_kwargs s = (res, s0)"
    by (cases "make_request w ''get'' ''/pre-flight-checks'' no_kwargs s")
  from mr make_request_pre_flight [of w s]
  have res: "res = exchange w (requests s) (pre_flight s)"
    and req: "requests s0 = requests s @ [pre_flight s]"
    by simp_all
  from mr make_request_fields [of w "''get''" "''/pre-flight-checks''" no_kwargs s] assms(1)
  have fields: "running s0" "api_url s0 = api_url s" "max_batch_size s0 = max_batch_size s"
    by simp_all
  show ?thesis
  proof (cases res)
    case (Inl e)
    with assms have "get_max_batch_size w s = (Inl e, s0)"
      by (simp add: get_max_batch_size_def running_passes mr)
    with req fields show ?thesis by simp
  next
    case (Inr resp)
    show ?thesis
    proof (cases "py_getitem resp ''max_batch_size''")
      case (Inl e)
      with assms Inr have "get_max_batch_size w s = (Inl e, s0)"
        by (simp add: get_max_batch_size_def running_passes mr)
      with req fields show ?thesis by simp
    next
      case item: (Inr v)
      with assms Inr have "get_max_batch_size w s = (Inr v, s0\<lparr>max_batch_size := v\<rparr>)"
        by (simp add: get_max_batch_size_def running_passes mr)
      moreover from Inr res have "exchange w (requests s) (pre_flight s) = Inr resp"
        by simp
      ultimately show ?thesis
        using req fields item by simp
    qed
  qed
qed

lemma validate_and_submit_fetches:
  assumes "running s" and "py_eq_minus_one (max_batch_size s)"
  shows "\<exists>r s2 posts. validate_and_submit w b path s = (r, s2)
           \<and> requests s2 = requests s @ pre_flight s # posts
           \<and> (\<forall>x \<in> set posts. rmethod x = ''post'')"
proof -
  from get_max_batch_size_unfetched [OF assms, of w]
  obtain r s1 where first: "get_max_batch_size w s = (r, s1)" and run1: "running s1"
    and req1: "requests s1 = requests s @ [pre_flight s]"
    by blast
  show ?thesis
  proof (cases r)
    case (Inl e)
    then show ?thesis
      by (simp add: validate_and_submit_def first req1)
  next
    case (Inr v)
    from validate_and_submit_after [OF run1, where b = b and limit = v and w = w and path = path]
    obtain r2 s2 new where after: "(case validate_batch b v of
             Inl e \<Rightarrow> (Inl e, s1)
           | Inr _ \<Rightarrow>
               (case submit_batch w b path s1 of
                  (Inl e, s2) \<Rightarrow> (Inl e, s2)
                | (Inr _, s2) \<Rightarrow> (Inr True, s2))) = (r2, s2)"
      and req2: "requests s2 = requests s1 @ new"
      and posts: "\<forall>x \<in> set new. rmethod x = ''post''"
      by blast
    have "validate_and_submit w b path s = (r2, s2)"
      by (simp add: validate_and_submit_def first Inr after)
    moreover from req1 req2 have "requests s2 = requests s @ pre_flight s # new"
      by simp
    ultimately show ?thesis
      using posts by blast
  qed
qed

lemma run_call_fetches:
  assumes "running s" and "py_eq_minus_one (max_batch_size s)"
  shows "\<exists>r s2 posts. run_call w c s = (r, s2)
           \<and> requests s2 = requests s @ pre_flight s # posts
           \<and> (\<forall>x \<in> set posts. rmethod x = ''post'')"
proof (cases c)
  case GetMaxBatchSize
  from get_max_batch_size_unfetched [OF assms, of w]
  show ?thesis
    by (auto simp: GetMaxBatchSize)
next
  case (Add i cid e m d u)
  from validate_and_submit_fetches [OF assms, where w = w]
  show ?thesis
    by (simp add: Add batch_steps [OF assms(1)] split_beta) (metis snd_conv)
next
  case (Update cid i e m d u)
  from validate_and_submit_fetches [OF assms, where w = w]
  show ?thesis
    by (simp add: Update batch_steps [OF assms(1)] split_beta) (metis snd_conv)
next
  case (Upsert cid i e m d u)
  from validate_and_submit_fetches [OF assms, where w = w]
  show ?thesis
    by (simp add: Upsert batch_steps [OF assms(1)] split_beta) (metis snd_conv)
qed

lemma get_max_batch_size_stays_unfetched:
  assumes "running s" and "py_eq_minus_one (max_batch_size s)"
    and none: "\<forall>resp v. exchange w (requests s) (pre_flight s) = Inr resp
                 \<and> py_getitem resp ''max_batch_size'' = Inr v \<longrightarrow> py_eq_minus_one v"
  shows "\<exists>r s1. get_max_batch_size w s = (r, s1) \<and> running s1 \<and> api_url s1 = api_url s
           \<and> requests s1 = requests s @ [pre_flight s]
           \<and> py_eq_minus_one (max_batch_size s1)
           \<and> ((\<exists>e. r = Inl e) \<or> (\<exists>v. r = Inr v \<and> py_eq_minus_one v))"
proof -
  from get_max_batch_size_unfetched [OF assms(1,2), of w]
  obtain r s1 where first: "get_max_batch_size w s = (r, s1)" and run1: "running s1"
    and url1: "api_url s1 = api_url s"
    and req1: "requests s1 = requests s @ [pre_flight s]"
    and how: "(\<exists>resp v. exchange w (requests s) (pre_flight s) = Inr resp
                   \<and> py_getitem resp ''max_batch_size'' = Inr v
                   \<and> r = Inr v \<and> max_batch_size s1 = v)
                \<or> ((\<exists>e. r = Inl e) \<and> max_batch_size s1 = max_batch_size s)"
    by blast
  from how have "py_eq_minus_one (max_batch_size s1)
                 \<and> ((\<exists>e. r = Inl e) \<or> (\<exists>v. r = Inr v \<and> py_eq_minus_one v))"
  proof
    assume "\<exists>resp v. exchange w (requests s) (pre_flight s) = Inr resp
                   \<and> py_getitem resp ''max_batch_size'' = Inr v
                   \<and> r = Inr v \<and> max_batch_size s1 = v"
    then obtain resp v where "exchange w (requests s) (pre_flight s) = Inr resp"
      and "py_getitem resp ''max_batch_size'' = Inr v" and rv: "r = Inr v"
      and mv: "max_batch_size s1 = v"
      by blast
    with none have "py_eq_minus_one v" by blast
    with rv mv show ?thesis by simp
  next
    assume "(\<exists>e. r = Inl e) \<and> max_batch_size s1 = max_batch_size s"
    with assms(2) show ?thesis by auto
  qed
  with first run1 url1 req1 show ?thesis by blast
qed

lemma run_call_stays_unfetched:
  assumes "running s" and "py_eq_minus_one (max_batch_size s)"
    and none: "\<forall>resp v. exchange w (requests s) (pre_flight s) = Inr resp
                 \<and> py_getitem resp ''max_batch_size'' = Inr v \<longrightarrow> py_eq_minus_one v"
  shows "\<exists>r s1. run_call w c s = (r, s1) \<and> running s1 \<and> api_url s1 = api_url s
           \<and> requests s1 = requests s @ [pre_flight s]
           \<and> py_eq_minus_one (max_batch_size s1)"
proof -
  from get_max_batch_size_stays_unfetched [OF assms]
  obtain r s1 where first: "get_max_batch_size w s = (r, s1)" and run1: "running s1"
    and url1: "api_url s1 = api_url s"
    and req1: "requests s1 = requests s @ [pre_flight s]"
    and still: "py_eq_minus_one (max_batch_size s1)"
    and how: "(\<exists>e. r = Inl e) \<or> (\<exists>v. r = Inr v \<and> py_eq_minus_one v)"
    by blast
  have batch: "\<exists>r'. validate_and_submit w b path s = (r', s1)" for b path
    using how
  proof
    assume "\<exists>e. r = Inl e"
    then show ?thesis
      by (auto simp: validate_and_submit_def first)
  next
    assume "\<exists>v. r = Inr v \<and> py_eq_minus_one v"
    then obtain v where rv: "r = Inr v" and "py_eq_minus_one v" by blast
    from minus_one_rejected [OF this(2), of b] obtain e where "validate_batch b v = Inl e"
      by blast
    then show ?thesis
      by (simp add: validate_and_submit_def first rv)
  qed
  show ?thesis
  proof (cases c)
    case GetMaxBatchSize
    with first run1 url1 req1 still show ?thesis by simp
  next
    case (Add i cid e m d u)
    from batch obtain r' where "validate_and_submit w
             (i, Some (convert_np_embeddings_to_list e), m, d, u)
             (''/collections/'' @ str_uuid cid @ ''/add'') s = (r', s1)"
      by blast
    with run1 url1 req1 still show ?thesis
      by (simp only: Add run_call.simps batch_steps [OF assms(1)]) simp
  next
    case (Update cid i e m d u)
    from batch obtain r' where "validate_and_submit w
             (i, map_option convert_np_embeddings_to_list e, m, d, u)
             (''/collections/'' @ str_uuid cid @ ''/update'') s = (r', s1)"
      by blast
    with run1 url1 req1 still show ?thesis
      by (simp only: Update run_call.simps batch_steps [OF assms(1)]) simp
  next
    case (Upsert cid i e m d u)
    from batch obtain r' where "validate_and_submit w
             (i, Some (convert_np_embeddings_to_list e), m, d, u)
             (''/collections/'' @ str_uuid cid @ ''/upsert'') s = (r', s1)"
      by blast
    with run1 url1 req1 still show ?thesis
      by (simp only: Upsert run_call.simps batch_steps [OF assms(1)]) simp
  qed
qed

text \<open>
  C4, as amended. Take a running client and calls of \<open>get_max_batch_size\<close>, \<open>add\<close>,
  \<open>update\<close> and \<open>upsert\<close> made one after the other, each returning before the next
  starts. If the value is cached already (it is not \<open>-1\<close>), no fetch request is issued at
  all. If it is unfetched and the server answers the fetch with a value other than \<open>-1\<close>,
  the first call issues the one fetch request and stores the value. In both cases every
  other request of the sequence is the submission of a batch, and every call of
  \<open>get_max_batch_size\<close> returns the same value. If it is unfetched and the fetch fails, or
  its answer has no value, or the value is \<open>-1\<close>, the call issues the fetch request and
  nothing else, the cache is still unfetched after it, and the next call issues the
  fetch request again.
\<close>

theorem get_max_batch_size_fetches_once:
  assumes run: "running s"
  shows "((if py_eq_minus_one (max_batch_size s)
           then exchange w (requests s) (pre_flight s) = Inr resp
                \<and> py_getitem resp ''max_batch_size'' = Inr v \<and> \<not> py_eq_minus_one v
           else v = max_batch_size s) \<longrightarrow>
          (\<exists>posts. requests (snd (run_calls w cs s))
                   = requests s
                     @ (if py_eq_minus_one (max_batch_size s) \<and> cs \<noteq> [] then [pre_flight s] else [])
                     @ posts
             \<and> (\<forall>x \<in> set posts. rmethod x = ''post'')
             \<and> (\<forall>i < length cs. cs ! i = GetMaxBatchSize \<longrightarrow>
                    fst (run_calls w cs s) ! i = Inr v)))
         \<and> (py_eq_minus_one (max_batch_size s)
            \<and> (\<forall>resp' v'. exchange w (requests s) (pre_flight s) = Inr resp'
                            \<and> py_getitem resp' ''max_batch_size'' = Inr v'
                          \<longrightarrow> py_eq_minus_one v') \<longrightarrow>
            requests (snd (run_call w c s)) = requests s @ [pre_flight s]
            \<and> py_eq_minus_one (max_batch_size (snd (run_call w c s)))
            \<and> (\<exists>posts. requests (snd (run_calls w [c, c'] s))
                         = requests s @ pre_flight s # pre_flight s # posts
                  \<and> (\<forall>x \<in> set posts. rmethod x = ''post'')))"
proof -
  have once: "\<exists>posts. requests (snd (run_calls w cs s))
                   = requests s
                     @ (if py_eq_minus_one (max_batch_size s) \<and> cs \<noteq> [] then [pre_flight s] else [])
                     @ posts
             \<and> (\<forall>x \<in> set posts. rmethod x = ''post'')
             \<and> (\<forall>i < length cs. cs ! i = GetMaxBatchSize \<longrightarrow>
                    fst (run_calls w cs s) ! i = Inr v)"
    if given: "if py_eq_minus_one (max_batch_size s)
           then exchange w (requests s) (pre_flight s) = Inr resp
                \<and> py_getitem resp ''max_batch_size'' = Inr v \<and> \<not> py_eq_minus_one v
           else v = max_batch_size s"
  proof -
    from given have fetch: "py_eq_minus_one (max_batch_size s) \<Longrightarrow>
                  exchange w (requests s) (pre_flight s) = Inr resp
                  \<and> py_getitem resp ''max_batch_size'' = Inr v \<and> \<not> py_eq_minus_one v"
      by simp
    from given have cached: "\<not> py_eq_minus_one (max_batch_size s) \<Longrightarrow> v = max_batch_size s"
      by simp
    from run_calls_fetch_once [where w = w, OF run fetch cached] show ?thesis
      by blast
  qed
  have again: "requests (snd (run_call w c s)) = requests s @ [pre_flight s]
            \<and> py_eq_minus_one (max_batch_size (snd (run_call w c s)))
            \<and> (\<exists>posts. requests (snd (run_calls w [c, c'] s))
                         = requests s @ pre_flight s # pre_flight s # posts
                  \<and> (\<forall>x \<in> set posts. rmethod x = ''post''))"
    if unfetched: "py_eq_minus_one (max_batch_size s)"
      and none: "\<forall>resp' v'. exchange w (requests s) (pre_flight s) = Inr resp'
                            \<and> py_getitem resp' ''max_batch_size'' = Inr v'
                          \<longrightarrow> py_eq_minus_one v'"
  proof -
    from run_call_stays_unfetched [where w = w and c = c, OF run unfetched none]
    obtain r1 s1 where step1: "run_call w c s = (r1, s1)" and run1: "running s1"
      and url1: "api_url s1 = api_url s"
      and req1: "requests s1 = requests s @ [pre_flight s]"
      and still: "py_eq_minus_one (max_batch_size s1)"
      by blast
    from run_call_fetches [where w = w and c = c', OF run1 still]
    obtain r2 s2 posts where step2: "run_call w c' s1 = (r2, s2)"
      and req2: "requests s2 = requests s1 @ pre_flight s1 # posts"
      and posts: "\<forall>x \<in> set posts. rmethod x = ''post''"
      by blast
    from url1 have same: "pre_flight s1 = pre_flight s"
      by (simp add: pre_flight_def)
    have both: "requests (snd (run_calls w [c, c'] s))
                = requests s @ pre_flight s # pre_flight s # posts"
      by (simp add: step1 step2 req2 req1 same)
    from step1 req1 still both posts show ?thesis
      by auto
  qed
  from once again show ?thesis by blast
qed

theorem get_max_batch_size_fetches_once_witness:
  "(\<exists>posts. requests (snd (run_calls (answering (JObj [(''max_batch_size'', JInt 100)]))
                              [GetMaxBatchSize, Add [''a''] (UUID 1) [JNull] None None None,
                               GetMaxBatchSize] client0))
              = pre_flight client0 # posts
            \<and> (\<forall>x \<in> set posts. rmethod x = ''post''))
   \<and> fst (run_calls (answering (JObj [(''max_batch_size'', JInt 100)]))
            [GetMaxBatchSize, Add [''a''] (UUID 1) [JNull] None None None, GetMaxBatchSize]
            client0) ! 0 = Inr (JInt 100)
   \<and> fst (run_calls (answering (JObj [(''max_batch_size'', JInt 100)]))
            [GetMaxBatchSize, Add [''a''] (UUID 1) [JNull] None None None, GetMaxBatchSize]
            client0) ! 2 = Inr (JInt 100)
   \<and> py_eq_minus_one (max_batch_size (snd (run_call unreachable GetMaxBatchSize client0)))
   \<and> (\<exists>posts. requests (snd (run_calls unreachable
                                 [GetMaxBatchSize, Add [''a''] (UUID 1) [JNull] None None None]
                                 client0))
              = pre_flight client0 # pre_flight client0 # posts
            \<and> (\<forall>x \<in> set posts. rmethod x = ''post''))"
proof -
  let ?w = "answering (JObj [(''max_batch_size'', JInt 100)])"
  let ?cs = "[GetMaxBatchSize, Add [''a''] (UUID 1) [JNull] None None None, GetMaxBatchSize]"
  have run: "running client0" by (simp add: client0_def)
  have unfetched: "py_eq_minus_one (max_batch_size client0)" by (simp add: client0_def)
  have empty: "requests client0 = []" by (simp add: client0_def)
  have fetch: "if py_eq_minus_one (max_batch_size client0)
               then exchange ?w (requests client0) (pre_flight client0)
                      = Inr (JObj [(''max_batch_size'', JInt 100)])
                    \<and> py_getitem (JObj [(''max_batch_size'', JInt 100)]) ''max_batch_size''
                      = Inr (JInt 100)
                    \<and> \<not> py_eq_minus_one (JInt 100)
               else JInt 100 = max_batch_size client0"
    by (simp add: answering_def unfetched)
  from get_max_batch_size_fetches_once [where s = client0 and w = ?w and cs = ?cs
      and resp = "JObj [(''max_batch_size'', JInt 100)]" and v = "JInt 100", OF run] fetch
    unfetched
  obtain posts where req: "requests (snd (run_calls ?w ?cs client0))
                           = requests client0 @ [pre_flight client0] @ posts"
    and posts: "\<forall>x \<in> set posts. rmethod x = ''post''"
    and results: "\<forall>i < length ?cs. ?cs ! i = GetMaxBatchSize \<longrightarrow>
                    fst (run_calls ?w ?cs client0) ! i = Inr (JInt 100)"
    by auto
  from req posts empty
  have a: "\<exists>posts. requests (snd (run_calls ?w ?cs client0)) = pre_flight client0 # posts
             \<and> (\<forall>x \<in> set posts. rmethod x = ''post'')"
    by auto
  from results have b: "fst (run_calls ?w ?cs client0) ! 0 = Inr (JInt 100)"
    by (elim allE [where x = 0]) simp
  from results have c: "fst (run_calls ?w ?cs client0) ! 2 = Inr (JInt 100)"
    by (elim allE [where x = 2]) simp
  have down: "py_eq_minus_one (max_batch_size client0)
              \<and> (\<forall>resp' v'. exchange unreachable (requests client0) (pre_flight client0) = Inr resp'
                            \<and> py_getitem resp' ''max_batch_size'' = Inr v'
                          \<longrightarrow> py_eq_minus_one v')"
    by (simp add: unfetched unreachable_def)
  from get_max_batch_size_fetches_once [where s = client0 and w = unreachable
      and c = GetMaxBatchSize and c' = "Add [''a''] (UUID 1) [JNull] None None None", OF run]
    down empty
  have d: "py_eq_minus_one (max_batch_size (snd (run_call unreachable GetMaxBatchSize client0)))
   \<and> (\<exists>posts. requests (snd (run_calls unreachable
                                 [GetMaxBatchSize, Add [''a''] (UUID 1) [JNull] None None None]
                                 client0))
              = pre_flight client0 # pre_flight client0 # posts
            \<and> (\<forall>x \<in> set posts. rmethod x = ''post''))"
    by auto
  from a b c d show ?thesis by blast
qed

text \<open>
  C4 as stated fails where a fetch stores nothing that ends the unfetched state: two calls
  on a started client issue two fetch requests when the server cannot be reached (the
  first call raises and the cache stays at \<open>-1\<close>), and also when the server advertises
  \<open>-1\<close> itself.
\<close>

theorem get_max_batch_size_refetch_counterexample:
  "map url (requests (snd (run_calls unreachable [GetMaxBatchSize, GetMaxBatchSize] client0)))
     = [''http://localhost:8000/api/v1/pre-flight-checks'',
        ''http://localhost:8000/api/v1/pre-flight-checks'']
   \<and> map url (requests (snd (run_calls (answering (JObj [(''max_batch_size'', JInt (- 1))]))
                                 [GetMaxBatchSize, GetMaxBatchSize] client0)))
     = [''http://localhost:8000/api/v1/pre-flight-checks'',
        ''http://localhost:8000/api/v1/pre-flight-checks'']"
proof -
  have run: "running client0" by (simp add: client0_def)
  have unfetched: "py_eq_minus_one (max_batch_size client0)" by (simp add: client0_def)
  have base: "requests client0 = []" "api_url client0 = ''http://localhost:8000/api/v1''"
    by (simp_all add: client0_def)
  have down: "map url (requests (snd (run_calls unreachable [GetMaxBatchSize, GetMaxBatchSize] client0)))
     = [''http://localhost:8000/api/v1/pre-flight-checks'',
        ''http://localhost:8000/api/v1/pre-flight-checks'']"
  proof -
    have "exchange unreachable (requests client0) (pre_flight client0) = Inl TransportError"
      by (simp add: unreachable_def)
    from get_max_batch_size_failed [where w = unreachable, OF run unfetched this]
    obtain s1 where c1: "get_max_batch_size unreachable client0 = (Inl TransportError, s1)"
      and r1: "running s1" and m1: "max_batch_size s1 = max_batch_size client0"
      and q1: "requests s1 = requests client0 @ [pre_flight client0]"
      and a1: "api_url s1 = api_url client0"
      by blast
    have "exchange unreachable (requests s1) (pre_flight s1) = Inl TransportError"
      by (simp add: unreachable_def)
    from get_max_batch_size_failed [where w = unreachable, OF r1 _ this] m1 unfetched
    obtain s2 where c2: "get_max_batch_size unreachable s1 = (Inl TransportError, s2)"
      and q2: "requests s2 = requests s1 @ [pre_flight s1]"
      by auto
    show ?thesis
      by (simp add: c1 c2 q1 q2 a1 base pre_flight_def)
  qed
  have minus: "map url (requests (snd (run_calls (answering (JObj [(''max_batch_size'', JInt (- 1))]))
                                 [GetMaxBatchSize, GetMaxBatchSize] client0)))
     = [''http://localhost:8000/api/v1/pre-flight-checks'',
        ''http://localhost:8000/api/v1/pre-flight-checks'']"
  proof -
    let ?w = "answering (JObj [(''max_batch_size'', JInt (- 1))])"
    have item: "py_getitem (JObj [(''max_batch_size'', JInt (- 1))]) ''max_batch_size'' = Inr (JInt (- 1))"
      by simp
    have "exchange ?w (requests client0) (pre_flight client0) = Inr (JObj [(''max_batch_size'', JInt (- 1))])"
      by (simp add: answering_def)
    from get_max_batch_size_fetched [where w = ?w, OF run unfetched this item]
    obtain s1 where c1: "get_max_batch_size ?w client0 = (Inr (JInt (- 1)), s1)"
      and r1: "running s1" and m1: "max_batch_size s1 = JInt (- 1)"
      and q1: "requests s1 = requests client0 @ [pre_flight client0]"
      and a1: "api_url s1 = api_url client0"
      by blast
    have u1: "py_eq_minus_one (max_batch_size s1)" by (simp add: m1)
    have "exchange ?w (requests s1) (pre_flight s1) = Inr (JObj [(''max_batch_size'', JInt (- 1))])"
      by (simp add: answering_def)
    from get_max_batch_size_fetched [where w = ?w, OF r1 u1 this item]
    obtain s2 where c2: "get_max_batch_size ?w s1 = (Inr (JInt (- 1)), s2)"
      and q2: "requests s2 = requests s1 @ [pre_flight s1]"
      by blast
    show ?thesis
      by (simp add: c1 c2 q1 q2 a1 base pre_flight_def)
  qed
  from down minus show ?thesis by (rule conjI)
qed

end
